theory Spec2Isabelle
  imports Main
begin

section \<open>Data model of \<^verbatim>\<open>keras/export/export_lib.py\<close>\<close>

text \<open>
  A parameter (a \<^verbatim>\<open>tf.Variable\<close> or a backend variable) is a Python object; the code
  tells two parameters apart by \<^verbatim>\<open>id(v)\<close> only, so a parameter is modelled by its
  identity.
\<close>

datatype variable = Variable (py_id: nat)

text \<open>
  A concrete (shape and dtype specialised) trace exposes the parameters it references
  (\<^verbatim>\<open>.variables\<close>) and those it lists as trainable (\<^verbatim>\<open>.trainable_variables\<close>).
  The two sequences are independent fields, as they are two attributes read by the code.
\<close>

record concrete_function =
  trainable_variables :: "variable list"
  variables :: "variable list"

text \<open>An input signature is a Python list of (possibly nested) tensor specifications.\<close>

datatype spec =
    TensorSpec "nat option list" string
  | SpecList "spec list"
  | SpecDict "(string \<times> spec) list"

text \<open>
  The callables the module handles, told apart by the attributes and classes the code
  inspects:
  \<^item> \<open>PyFunction\<close>: an ordinary Python callable (a function, a lambda, a bound method);
  \<^item> \<open>StatefulFn\<close>: the \<^verbatim>\<open>stateful_fn\<close> wrapper built on the JAX path of
    \<^verbatim>\<open>add_endpoint\<close> around the converted function, with the number of parameters its
    signature was truncated to;
  \<^item> \<open>TfFunction\<close>: a \<^verbatim>\<open>tf.function\<close> object (a \<^verbatim>\<open>GenericFunction\<close>): the wrapped
    callable, its \<^verbatim>\<open>input_signature\<close>, the \<^verbatim>\<open>autograph\<close> flag and the traces it holds
    (\<^verbatim>\<open>_list_all_concrete_functions()\<close>); it has \<^verbatim>\<open>get_concrete_function\<close>;
  \<^item> \<open>RestoredFunction\<close>: a function revived from a SavedModel, which exposes
    \<^verbatim>\<open>concrete_functions\<close>;
  \<^item> \<open>ConcreteFunction\<close>: a single trace.
\<close>

datatype callable =
    PyFunction nat
  | StatefulFn callable nat
  | TfFunction callable "spec list option" bool "concrete_function list"
  | RestoredFunction "concrete_function list"
  | ConcreteFunction concrete_function

text \<open>
  The Python values the module binds to attributes and passes around: a parameter, an
  auxiliary stateful resource (a lookup layer, by its identity), a callable, a list and
  the \<^verbatim>\<open>signatures\<close> mapping of a reloaded artifact (an association list in the
  mapping's order).
\<close>

datatype py_value =
    Var variable
  | Asset nat
  | Callable callable
  | PyList "py_value list"
  | SignatureMap "(string \<times> callable) list"

text \<open>
  Every \<^verbatim>\<open>raise\<close> of the module is a value. The first group is the taxonomy of usage
  errors; the second group stands for the Python exceptions raised when an attribute is
  missing, an operand has the wrong type, an index is out of range, or tracing fails.
\<close>

datatype error =
    UnsupportedRuntime
  | InvalidResourceType
  | NotBuilt
  | DuplicateEndpointName string
  | UnspecializedFunction
  | MissingSignature
  | NoEndpoints
  | EndpointNotFound string "string list"
  | AttributeError string
  | TypeError
  | IndexError
  | TracingError

section \<open>\<^verbatim>\<open>_list_variables_used_by_fns\<close>\<close>

text \<open>The four local accumulators of the function.\<close>

record collector =
  trainable_acc :: "variable list"
  non_trainable_acc :: "variable list"
  trainable_variables_ids :: "nat set"
  non_trainable_variables_ids :: "nat set"

definition empty_collector :: collector where
  "empty_collector =
     \<lparr>trainable_acc = [], non_trainable_acc = [],
      trainable_variables_ids = {}, non_trainable_variables_ids = {}\<rparr>"

text \<open>\<^verbatim>\<open>for v in concrete_fn.trainable_variables: if id(v) not in trainable_variables_ids: ...\<close>\<close>

fun add_trainable :: "variable list \<Rightarrow> collector \<Rightarrow> collector" where
  "add_trainable [] s = s"
| "add_trainable (v # vs) s =
     add_trainable vs
       (if py_id v \<notin> trainable_variables_ids s
        then s\<lparr>trainable_acc := trainable_acc s @ [v],
               trainable_variables_ids := insert (py_id v) (trainable_variables_ids s)\<rparr>
        else s)"

text \<open>
  \<^verbatim>\<open>for v in concrete_fn.variables: if id(v) not in trainable_variables_ids and id(v) not in
  non_trainable_variables_ids: ...\<close>
\<close>

fun add_non_trainable :: "variable list \<Rightarrow> collector \<Rightarrow> collector" where
  "add_non_trainable [] s = s"
| "add_non_trainable (v # vs) s =
     add_non_trainable vs
       (if py_id v \<notin> trainable_variables_ids s \<and> py_id v \<notin> non_trainable_variables_ids s
        then s\<lparr>non_trainable_acc := non_trainable_acc s @ [v],
               non_trainable_variables_ids := insert (py_id v) (non_trainable_variables_ids s)\<rparr>
        else s)"

text \<open>\<^verbatim>\<open>for concrete_fn in concrete_functions: ...\<close>\<close>

fun over_concrete_functions :: "concrete_function list \<Rightarrow> collector \<Rightarrow> collector" where
  "over_concrete_functions [] s = s"
| "over_concrete_functions (c # cs) s =
     over_concrete_functions cs
       (add_non_trainable (variables c) (add_trainable (trainable_variables c) s))"

text \<open>
  The three-way choice of the traces of one \<^verbatim>\<open>fn\<close>. Tracing is the compile
  collaborator's work: \<open>gcf\<close> is what \<^verbatim>\<open>fn.get_concrete_function()\<close> returns for a
  \<^verbatim>\<open>tf.function\<close>, \<open>None\<close> when it raises. In the last case the code takes \<^verbatim>\<open>[fn]\<close> and
  reads \<^verbatim>\<open>.trainable_variables\<close> from it, which raises \<^verbatim>\<open>AttributeError\<close> on an object
  that is not a trace.
\<close>

fun concrete_functions_of ::
  "(callable \<Rightarrow> concrete_function option) \<Rightarrow> py_value \<Rightarrow> error + concrete_function list" where
  "concrete_functions_of gcf (Callable (RestoredFunction cs)) = Inr cs"
| "concrete_functions_of gcf (Callable (TfFunction f sg ag ts)) =
     (case gcf (TfFunction f sg ag ts) of None \<Rightarrow> Inl TracingError | Some c \<Rightarrow> Inr [c])"
| "concrete_functions_of gcf (Callable (ConcreteFunction c)) = Inr [c]"
| "concrete_functions_of gcf _ = Inl (AttributeError ''trainable_variables'')"

text \<open>\<^verbatim>\<open>for fn in fns: ...\<close>\<close>

fun over_fns ::
  "(callable \<Rightarrow> concrete_function option) \<Rightarrow> py_value list \<Rightarrow> collector \<Rightarrow> error + collector" where
  "over_fns gcf [] s = Inr s"
| "over_fns gcf (fn # fns) s =
     (case concrete_functions_of gcf fn of
        Inl e \<Rightarrow> Inl e
      | Inr cs \<Rightarrow> over_fns gcf fns (over_concrete_functions cs s))"

definition list_variables_used_by_fns ::
  "(callable \<Rightarrow> concrete_function option) \<Rightarrow> py_value list
     \<Rightarrow> error + (variable list \<times> variable list)" where
  "list_variables_used_by_fns gcf fns =
     (case over_fns gcf fns empty_collector of
        Inl e \<Rightarrow> Inl e
      | Inr s \<Rightarrow> Inr (trainable_acc s, non_trainable_acc s))"

text \<open>
  Vocabulary for the properties of the collection. \<open>traces_of\<close> lists the traces of all
  functions in registration order (it fails where the code fails); \<open>sightings\<close> is the
  order in which the code meets the parameters of a list of traces, each with the
  classification it is met under; \<open>first_occurrences\<close> keeps the first occurrence of each
  element of a list; \<open>non_trainable_sightings T\<close> lists the parameters met while no trace
  so far (nor \<open>T\<close>) has listed them as trainable.
\<close>

fun traces_of ::
  "(callable \<Rightarrow> concrete_function option) \<Rightarrow> py_value list \<Rightarrow> error + concrete_function list" where
  "traces_of gcf [] = Inr []"
| "traces_of gcf (fn # fns) =
     (case concrete_functions_of gcf fn of
        Inl e \<Rightarrow> Inl e
      | Inr cs \<Rightarrow> (case traces_of gcf fns of Inl e \<Rightarrow> Inl e | Inr ds \<Rightarrow> Inr (cs @ ds)))"

definition sightings_of :: "concrete_function \<Rightarrow> (variable \<times> bool) list" where
  "sightings_of c =
     map (\<lambda>v. (v, True)) (trainable_variables c) @ map (\<lambda>v. (v, False)) (variables c)"

definition sightings :: "concrete_function list \<Rightarrow> (variable \<times> bool) list" where
  "sightings cs = concat (map sightings_of cs)"

definition first_occurrences :: "'a list \<Rightarrow> 'a list" where
  "first_occurrences xs = rev (remdups (rev xs))"

fun non_trainable_sightings :: "variable set \<Rightarrow> concrete_function list \<Rightarrow> variable list" where
  "non_trainable_sightings T [] = []"
| "non_trainable_sightings T (c # cs) =
     filter (\<lambda>v. v \<notin> T \<union> set (trainable_variables c)) (variables c)
       @ non_trainable_sightings (T \<union> set (trainable_variables c)) cs"

definition referenced :: "concrete_function list \<Rightarrow> variable set" where
  "referenced cs = (\<Union>c\<in>set cs. set (trainable_variables c) \<union> set (variables c))"

section \<open>\<^verbatim>\<open>ExportArchive\<close>\<close>

text \<open>
  \<^verbatim>\<open>backend.backend()\<close> is a process-wide setting, fixed before the module is imported.
  \<^verbatim>\<open>ExportArchive.__init__\<close> raises on every backend but TensorFlow and JAX, so an
  archive exists only under one of these two: in \<^verbatim>\<open>add_endpoint\<close> the code itself
  labels the branch that is not TensorFlow as the JAX backend. The archive records the one
  it was created under.
\<close>

datatype backend = Tensorflow | Jax | Torch | Numpy

datatype export_backend = TensorflowBackend | JaxBackend

text \<open>
  A resource handed to \<^verbatim>\<open>track\<close>, described by what the code inspects: the three
  \<^verbatim>\<open>isinstance\<close> tests, the \<^verbatim>\<open>built\<close> flag, the three parameter sequences of a layer,
  and the descendants \<^verbatim>\<open>tf.train.TrackableView(root).descendants()\<close> yields, each with
  its identity and whether it is an \<^verbatim>\<open>IntegerLookup\<close>, \<^verbatim>\<open>StringLookup\<close> or
  \<^verbatim>\<open>TextVectorization\<close> layer.
\<close>

record resource =
  is_tf_trackable :: bool
  is_jax_layer :: bool
  is_layer :: bool
  built :: bool
  layer_variables :: "variable list"
  layer_trainable_variables :: "variable list"
  layer_non_trainable_variables :: "variable list"
  descendants :: "(nat \<times> bool) list"

text \<open>
  The archive. \<open>tf_trackable\<close> is the attribute dictionary of \<^verbatim>\<open>self._tf_trackable\<close>:
  endpoints are stored with \<^verbatim>\<open>setattr\<close> under the user's name, in the same namespace as
  \<^verbatim>\<open>variables\<close>, \<^verbatim>\<open>trainable_variables\<close> and \<^verbatim>\<open>non_trainable_variables\<close>. \<open>tracked\<close> is
  \<open>None\<close> until the first \<^verbatim>\<open>track\<close> creates \<^verbatim>\<open>self._tracked\<close>. The three
  \<^verbatim>\<open>_backend_*\<close> lists exist under JAX only, and only the JAX branches read them.
  \<open>next_id\<close> is the identity of the next object Python allocates (for the
  \<^verbatim>\<open>tf.Variable(v)\<close> mirrors made under JAX).
\<close>

record export_archive =
  backend_of :: export_backend
  endpoint_names :: "string list"
  endpoint_signatures :: "string \<rightharpoonup> spec list"
  tf_trackable :: "string \<rightharpoonup> py_value"
  backend_variables :: "variable list"
  backend_trainable_variables :: "variable list"
  backend_non_trainable_variables :: "variable list"
  tracked :: "resource list option"
  next_id :: nat

text \<open>
  A method returns its outcome together with the archive as the call leaves it: what a
  Python method has mutated before it raises stays mutated.
\<close>

type_synonym 'a outcome = "(error + 'a) \<times> export_archive"

definition ExportArchive_init :: "backend \<Rightarrow> nat \<Rightarrow> error + export_archive" where
  "ExportArchive_init b fresh =
     (let trackable = [''variables'' \<mapsto> PyList [],
                       ''trainable_variables'' \<mapsto> PyList [],
                       ''non_trainable_variables'' \<mapsto> PyList []];
          self = \<lambda>eb. \<lparr>backend_of = eb, endpoint_names = [], endpoint_signatures = Map.empty,
                 tf_trackable = trackable, backend_variables = [],
                 backend_trainable_variables = [], backend_non_trainable_variables = [],
                 tracked = None, next_id = fresh\<rparr>
      in case b of
           Tensorflow \<Rightarrow> Inr (self TensorflowBackend)
         | Jax \<Rightarrow> Inr (self JaxBackend)
         | _ \<Rightarrow> Inl UnsupportedRuntime)"

text \<open>The three properties read the trackable's attributes.\<close>

definition getattr_trackable :: "export_archive \<Rightarrow> string \<Rightarrow> error + py_value" where
  "getattr_trackable self name =
     (case tf_trackable self name of None \<Rightarrow> Inl (AttributeError name) | Some v \<Rightarrow> Inr v)"

definition archive_variables :: "export_archive \<Rightarrow> error + py_value" where
  "archive_variables self = getattr_trackable self ''variables''"

definition archive_trainable_variables :: "export_archive \<Rightarrow> error + py_value" where
  "archive_trainable_variables self = getattr_trackable self ''trainable_variables''"

definition archive_non_trainable_variables :: "export_archive \<Rightarrow> error + py_value" where
  "archive_non_trainable_variables self = getattr_trackable self ''non_trainable_variables''"

definition setattr_trackable :: "string \<Rightarrow> py_value \<Rightarrow> export_archive \<Rightarrow> export_archive" where
  "setattr_trackable name v self = self\<lparr>tf_trackable := (tf_trackable self)(name \<mapsto> v)\<rparr>"

subsection \<open>\<^verbatim>\<open>track\<close>\<close>

text \<open>
  \<^verbatim>\<open>self._tf_trackable.<name> += vs\<close>: the attribute is read (\<^verbatim>\<open>AttributeError\<close> when it
  is missing), extended in place when it is a list (\<^verbatim>\<open>TypeError\<close> otherwise) and bound
  again.
\<close>

definition iadd_trackable :: "string \<Rightarrow> variable list \<Rightarrow> export_archive \<Rightarrow> unit outcome" where
  "iadd_trackable name vs self =
     (case tf_trackable self name of
        None \<Rightarrow> (Inl (AttributeError name), self)
      | Some (PyList xs) \<Rightarrow> (Inr (), setattr_trackable name (PyList (xs @ map Var vs)) self)
      | Some _ \<Rightarrow> (Inl TypeError, self))"

text \<open>\<^verbatim>\<open>[tf.Variable(v) for v in vs]\<close>: one new object for each element.\<close>

definition mirror_variables :: "variable list \<Rightarrow> export_archive \<Rightarrow> variable list \<times> export_archive" where
  "mirror_variables vs self =
     (map Variable [next_id self ..< next_id self + length vs],
      self\<lparr>next_id := next_id self + length vs\<rparr>)"

text \<open>
  \<^verbatim>\<open>self._tf_trackable.<name> += [tf.Variable(v) for v in vs]\<close>: Python reads the attribute
  before it evaluates the right-hand side.
\<close>

definition iadd_mirrors :: "string \<Rightarrow> variable list \<Rightarrow> export_archive \<Rightarrow> unit outcome" where
  "iadd_mirrors name vs self =
     (case tf_trackable self name of
        None \<Rightarrow> (Inl (AttributeError name), self)
      | Some old \<Rightarrow>
          (let (ms, self1) = mirror_variables vs self
           in case old of
                PyList xs \<Rightarrow> (Inr (), setattr_trackable name (PyList (xs @ map Var ms)) self1)
              | _ \<Rightarrow> (Inl TypeError, self1)))"

text \<open>The JAX branch of \<^verbatim>\<open>track\<close> (source lines 156 to 176).\<close>

definition track_jax :: "resource \<Rightarrow> export_archive \<Rightarrow> unit outcome" where
  "track_jax resource self =
     (let trainable_vs = layer_trainable_variables resource;
          non_trainable_vs = layer_non_trainable_variables resource;
          self1 = self\<lparr>backend_trainable_variables := backend_trainable_variables self @ trainable_vs\<rparr>;
          self2 = self1\<lparr>backend_non_trainable_variables :=
                           backend_non_trainable_variables self1 @ non_trainable_vs\<rparr>;
          self3 = self2\<lparr>backend_variables :=
                           backend_trainable_variables self2 @ backend_non_trainable_variables self2\<rparr>
      in case iadd_mirrors ''trainable_variables'' trainable_vs self3 of
           (Inl e, self4) \<Rightarrow> (Inl e, self4)
         | (Inr _, self4) \<Rightarrow>
             (case iadd_mirrors ''non_trainable_variables'' non_trainable_vs self4 of
                (Inl e, self5) \<Rightarrow> (Inl e, self5)
              | (Inr _, self5) \<Rightarrow>
                  (case tf_trackable self5 ''trainable_variables'' of
                     None \<Rightarrow> (Inl (AttributeError ''trainable_variables''), self5)
                   | Some a \<Rightarrow>
                       (case tf_trackable self5 ''non_trainable_variables'' of
                          None \<Rightarrow> (Inl (AttributeError ''non_trainable_variables''), self5)
                        | Some b \<Rightarrow>
                            (case (a, b) of
                               (PyList xs, PyList ys) \<Rightarrow>
                                 (Inr (), setattr_trackable ''variables'' (PyList (xs @ ys)) self5)
                             | _ \<Rightarrow> (Inl TypeError, self5))))))"

text \<open>The other branch of \<^verbatim>\<open>track\<close> (source lines 178 to 184).\<close>

definition track_tf :: "resource \<Rightarrow> export_archive \<Rightarrow> unit outcome" where
  "track_tf resource self =
     (case iadd_trackable ''variables'' (layer_variables resource) self of
        (Inl e, self1) \<Rightarrow> (Inl e, self1)
      | (Inr _, self1) \<Rightarrow>
          (case iadd_trackable ''trainable_variables'' (layer_trainable_variables resource) self1 of
             (Inl e, self2) \<Rightarrow> (Inl e, self2)
           | (Inr _, self2) \<Rightarrow>
               iadd_trackable ''non_trainable_variables''
                 (layer_non_trainable_variables resource) self2))"

definition track :: "resource \<Rightarrow> export_archive \<Rightarrow> unit outcome" where
  "track resource self =
     (if backend_of self = TensorflowBackend \<and> \<not> is_tf_trackable resource
      then (Inl InvalidResourceType, self)
      else if backend_of self = JaxBackend \<and> \<not> is_jax_layer resource
      then (Inl InvalidResourceType, self)
      else if is_layer resource \<and> \<not> built resource
      then (Inl NotBuilt, self)
      else
        (let self1 = self\<lparr>tracked :=
                       Some ((case tracked self of None \<Rightarrow> [] | Some rs \<Rightarrow> rs) @ [resource])\<rparr>
         in if is_layer resource
            then (if backend_of self1 = JaxBackend then track_jax resource self1
                  else track_tf resource self1)
            else (Inr (), self1)))"

subsection \<open>\<^verbatim>\<open>add_endpoint\<close>\<close>

text \<open>\<^verbatim>\<open>if input_signature:\<close> holds for a list that is given and not empty.\<close>

fun truthy_signature :: "spec list option \<Rightarrow> bool" where
  "truthy_signature None = False"
| "truthy_signature (Some []) = False"
| "truthy_signature (Some (x # xs)) = True"

text \<open>
  \<^verbatim>\<open>isinstance(fn, tf.types.experimental.GenericFunction)\<close> and
  \<^verbatim>\<open>fn._list_all_concrete_functions()\<close>.
\<close>

fun is_generic_function :: "callable \<Rightarrow> bool" where
  "is_generic_function (TfFunction f sg ag ts) = True"
| "is_generic_function (RestoredFunction cs) = True"
| "is_generic_function _ = False"

fun list_all_concrete_functions :: "callable \<Rightarrow> concrete_function list" where
  "list_all_concrete_functions (TfFunction f sg ag ts) = ts"
| "list_all_concrete_functions (RestoredFunction cs) = cs"
| "list_all_concrete_functions _ = []"

text \<open>
  The function stored for an endpoint registered with a signature. Under TensorFlow it is
  \<^verbatim>\<open>tf.function(fn, input_signature=input_signature)\<close>; under JAX it is
  \<^verbatim>\<open>tf.function(stateful_fn, input_signature=input_signature, autograph=False)\<close>, where
  \<^verbatim>\<open>stateful_fn\<close> wraps the converted stateless function and carries the signature of
  \<^verbatim>\<open>fn\<close> cut to the length of \<^verbatim>\<open>input_signature\<close>. A new \<^verbatim>\<open>tf.function\<close> holds no trace.
  Every value of type \<open>spec list\<close> is a well-formed signature and every \<open>callable\<close> can
  be wrapped, so the collaborators (\<^verbatim>\<open>tf.function\<close>, \<^verbatim>\<open>jax2tf.convert\<close>) are taken to
  return.
\<close>

definition decorate :: "export_backend \<Rightarrow> callable \<Rightarrow> spec list \<Rightarrow> callable" where
  "decorate b fn input_signature =
     (if b = TensorflowBackend then TfFunction fn (Some input_signature) True []
      else TfFunction (StatefulFn fn (length input_signature)) (Some input_signature) False [])"

definition add_endpoint ::
  "string \<Rightarrow> callable \<Rightarrow> spec list option \<Rightarrow> export_archive \<Rightarrow> unit outcome" where
  "add_endpoint name fn input_signature self =
     (if name \<in> set (endpoint_names self) then (Inl (DuplicateEndpointName name), self)
      else
        (case (if truthy_signature input_signature
               then (let decorated_fn = decorate (backend_of self) fn (the input_signature)
                     in (Inr decorated_fn,
                         self\<lparr>endpoint_signatures :=
                                (endpoint_signatures self)(name \<mapsto> the input_signature)\<rparr>))
               else if is_generic_function fn
               then (if list_all_concrete_functions fn = [] then (Inl UnspecializedFunction, self)
                     else (Inr fn, self))
               else (Inl MissingSignature, self)) of
           (Inl e, self1) \<Rightarrow> (Inl e, self1)
         | (Inr decorated_fn, self1) \<Rightarrow>
             (let self2 = setattr_trackable name (Callable decorated_fn) self1
              in (Inr (), self2\<lparr>endpoint_names := endpoint_names self2 @ [name]\<rparr>))))"

subsection \<open>\<^verbatim>\<open>write_out\<close>\<close>

text \<open>
  \<^verbatim>\<open>fn._trackable_children("saved_model")\<close>: the traces of a function object; a value that
  is no function object has no traces to look up.
\<close>

fun trackable_children :: "py_value \<Rightarrow> error + concrete_function list" where
  "trackable_children (Callable (TfFunction f sg ag ts)) = Inr ts"
| "trackable_children (Callable (RestoredFunction cs)) = Inr cs"
| "trackable_children _ = Inl (AttributeError ''_trackable_children'')"

definition get_concrete_fn :: "export_archive \<Rightarrow> string \<Rightarrow> error + py_value" where
  "get_concrete_fn self endpoint =
     (if endpoint \<in> dom (endpoint_signatures self) then getattr_trackable self endpoint
      else
        (case getattr_trackable self endpoint of
           Inl e \<Rightarrow> Inl e
         | Inr f \<Rightarrow>
             (case trackable_children f of
                Inl e \<Rightarrow> Inl e
              | Inr [] \<Rightarrow> Inl IndexError
              | Inr (c # cs) \<Rightarrow> Inr (Callable (ConcreteFunction c)))))"

text \<open>\<^verbatim>\<open>[self._get_concrete_fn(name) for name in self._endpoint_names]\<close>\<close>

fun get_concrete_fns :: "export_archive \<Rightarrow> string list \<Rightarrow> error + py_value list" where
  "get_concrete_fns self [] = Inr []"
| "get_concrete_fns self (name # names) =
     (case get_concrete_fn self name of
        Inl e \<Rightarrow> Inl e
      | Inr f \<Rightarrow> (case get_concrete_fns self names of Inl e \<Rightarrow> Inl e | Inr fs \<Rightarrow> Inr (f # fs)))"

text \<open>The lookup layers among the descendants of the tracked roots, in traversal order.\<close>

definition misc_assets_of :: "resource list \<Rightarrow> py_value list" where
  "misc_assets_of roots =
     concat (map (\<lambda>root. map (\<lambda>d. Asset (fst d)) (filter snd (descendants root))) roots)"

definition filter_and_track_resources ::
  "(callable \<Rightarrow> concrete_function option) \<Rightarrow> export_archive \<Rightarrow> unit outcome" where
  "filter_and_track_resources gcf self =
     (case get_concrete_fns self (endpoint_names self) of
        Inl e \<Rightarrow> (Inl e, self)
      | Inr fns \<Rightarrow>
          (case list_variables_used_by_fns gcf fns of
             Inl e \<Rightarrow> (Inl e, self)
           | Inr (tvs, ntvs) \<Rightarrow>
               (let self1 = setattr_trackable ''_all_variables'' (PyList (map Var (tvs @ ntvs))) self;
                    self2 = setattr_trackable ''_misc_assets'' (PyList []) self1
                in case tracked self2 of
                     None \<Rightarrow> (Inr (), self2)
                   | Some roots \<Rightarrow>
                       (Inr (), setattr_trackable ''_misc_assets'' (PyList (misc_assets_of roots)) self2))))"

text \<open>\<^verbatim>\<open>for name in self._endpoint_names: signatures[name] = self._get_concrete_fn(name)\<close>\<close>

fun fill_signatures ::
  "export_archive \<Rightarrow> string list \<Rightarrow> (string \<rightharpoonup> py_value) \<Rightarrow> error + (string \<rightharpoonup> py_value)" where
  "fill_signatures self [] signatures = Inr signatures"
| "fill_signatures self (name # names) signatures =
     (case get_concrete_fn self name of
        Inl e \<Rightarrow> Inl e
      | Inr f \<Rightarrow> fill_signatures self names (signatures(name \<mapsto> f)))"

text \<open>
  \<^verbatim>\<open>write_out\<close> up to its call of \<^verbatim>\<open>tf.saved_model.save\<close>: the outcome is the
  \<^verbatim>\<open>signatures\<close> dictionary handed to the container format. Saving itself and the
  summary printed afterwards belong to the collaborators.
\<close>

definition write_out ::
  "(callable \<Rightarrow> concrete_function option) \<Rightarrow> export_archive \<Rightarrow> (string \<rightharpoonup> py_value) outcome" where
  "write_out gcf self =
     (if endpoint_names self = [] then (Inl NoEndpoints, self)
      else
        (case (if backend_of self = TensorflowBackend then filter_and_track_resources gcf self
               else (Inr (), self)) of
           (Inl e, self1) \<Rightarrow> (Inl e, self1)
         | (Inr _, self1) \<Rightarrow>
             (case fill_signatures self1 (endpoint_names self1) Map.empty of
                Inl e \<Rightarrow> (Inl e, self1)
              | Inr signatures \<Rightarrow>
                  (if ''serving_default'' \<notin> set (endpoint_names self1)
                   then (case endpoint_names self1 of
                           [] \<Rightarrow> (Inl IndexError, self1)
                         | first # rest \<Rightarrow>
                             (case get_concrete_fn self1 first of
                                Inl e \<Rightarrow> (Inl e, self1)
                              | Inr f \<Rightarrow> (Inr (signatures(''serving_default'' \<mapsto> f)), self1)))
                   else (Inr signatures, self1)))))"

subsection \<open>Vocabulary of the claims about the archive\<close>

text \<open>
  The trackable capability the serialization runtime in use requires of a resource, and
  the condition that a trackable attribute is bound to a list.
\<close>

definition trackable_capability :: "export_archive \<Rightarrow> resource \<Rightarrow> bool" where
  "trackable_capability self resource =
     (case backend_of self of
        TensorflowBackend \<Rightarrow> is_tf_trackable resource
      | JaxBackend \<Rightarrow> is_jax_layer resource)"

fun is_py_list :: "py_value option \<Rightarrow> bool" where
  "is_py_list (Some (PyList xs)) = True"
| "is_py_list _ = False"

definition variable_lists_bound :: "export_archive \<Rightarrow> bool" where
  "variable_lists_bound self \<longleftrightarrow>
     is_py_list (tf_trackable self ''variables'') \<and>
     is_py_list (tf_trackable self ''trainable_variables'') \<and>
     is_py_list (tf_trackable self ''non_trainable_variables'')"

section \<open>\<^verbatim>\<open>TFSMLayer\<close>\<close>

text \<open>
  The reloaded layer. \<open>reloaded_obj\<close> is the attribute dictionary of what
  \<^verbatim>\<open>tf.saved_model.load(filepath)\<close> returned, with its \<^verbatim>\<open>signatures\<close> mapping bound
  under that name. \<open>call_training_endpoint_fn\<close> is \<open>None\<close> while the attribute has not
  been set. The two weight sequences are the layer's VariableSet.
\<close>

record tfsm_layer =
  reloaded_obj :: "string \<rightharpoonup> py_value"
  filepath :: string
  call_endpoint :: string
  call_training_endpoint :: "string option"
  call_endpoint_fn :: py_value
  call_training_endpoint_fn :: "py_value option"
  trainable_weights :: "variable list"
  non_trainable_weights :: "variable list"
  layer_built :: bool

text \<open>\<^verbatim>\<open>if call_training_endpoint:\<close> holds for a name that is given and not empty.\<close>

fun truthy_name :: "string option \<Rightarrow> bool" where
  "truthy_name None = False"
| "truthy_name (Some []) = False"
| "truthy_name (Some (c # cs)) = True"

text \<open>\<^verbatim>\<open>self._reloaded_obj.signatures\<close>\<close>

definition signatures_of :: "(string \<rightharpoonup> py_value) \<Rightarrow> error + (string \<times> callable) list" where
  "signatures_of obj =
     (case obj ''signatures'' of
        None \<Rightarrow> Inl (AttributeError ''signatures'')
      | Some (SignatureMap m) \<Rightarrow> Inr m
      | Some _ \<Rightarrow> Inl TypeError)"

text \<open>
  Modelled from the spec: \<^verbatim>\<open>Layer._track_variable\<close>, which \<^verbatim>\<open>_add_existing_weight\<close>
  calls and which lives in the layer base class, outside the files at hand. The spec has
  each discovered parameter registered as an owned weight of the new layer, trainable
  ones as trainable and the others as frozen, by the parameter's trainable flag (\<open>flag\<close>);
  the owned weights are a VariableSet, in which an identity appears in at most one of the
  two sequences and at most once within it, membership being tested on merge.
\<close>

definition track_variable :: "(variable \<Rightarrow> bool) \<Rightarrow> variable \<Rightarrow> tfsm_layer \<Rightarrow> tfsm_layer" where
  "track_variable flag v self =
     (if v \<in> set (trainable_weights self) \<union> set (non_trainable_weights self) then self
      else if flag v then self\<lparr>trainable_weights := trainable_weights self @ [v]\<rparr>
      else self\<lparr>non_trainable_weights := non_trainable_weights self @ [v]\<rparr>)"

text \<open>
  Modelled from the spec: the \<^verbatim>\<open>trainable_variables\<close>, \<^verbatim>\<open>non_trainable_variables\<close> and
  \<^verbatim>\<open>variables\<close> properties of the layer base class, which is outside the files at hand.
  The spec has them expose the layer's VariableSet: its trainable sequence, its
  non-trainable sequence and the two together.
\<close>

definition reloaded_trainable_variables :: "tfsm_layer \<Rightarrow> variable list" where
  "reloaded_trainable_variables self = trainable_weights self"

definition reloaded_non_trainable_variables :: "tfsm_layer \<Rightarrow> variable list" where
  "reloaded_non_trainable_variables self = non_trainable_weights self"

definition reloaded_variables :: "tfsm_layer \<Rightarrow> variable list" where
  "reloaded_variables self = trainable_weights self @ non_trainable_weights self"

definition add_existing_weight :: "(variable \<Rightarrow> bool) \<Rightarrow> variable \<Rightarrow> tfsm_layer \<Rightarrow> tfsm_layer" where
  "add_existing_weight flag weight self = track_variable flag weight self"

text \<open>\<^verbatim>\<open>for v in vs: self._add_existing_weight(v)\<close>\<close>

fun add_existing_weights :: "(variable \<Rightarrow> bool) \<Rightarrow> variable list \<Rightarrow> tfsm_layer \<Rightarrow> tfsm_layer" where
  "add_existing_weights flag [] self = self"
| "add_existing_weights flag (v # vs) self =
     add_existing_weights flag vs (add_existing_weight flag v self)"

text \<open>
  \<^verbatim>\<open>TFSMLayer.__init__\<close>. \<open>loaded\<close> is the object \<^verbatim>\<open>tf.saved_model.load\<close> returned; the
  \<^verbatim>\<open>trainable\<close>, \<^verbatim>\<open>name\<close> and \<^verbatim>\<open>dtype\<close> arguments only travel to the base class. A
  constructor that raises leaves no object, so the result is an error or the layer.
\<close>

definition TFSMLayer_init ::
  "backend \<Rightarrow> (callable \<Rightarrow> concrete_function option) \<Rightarrow> (variable \<Rightarrow> bool)
     \<Rightarrow> (string \<rightharpoonup> py_value) \<Rightarrow> string \<Rightarrow> string \<Rightarrow> string option \<Rightarrow> error + tfsm_layer" where
  "TFSMLayer_init b gcf flag loaded path endpoint training_endpoint =
     (if b \<noteq> Tensorflow then Inl UnsupportedRuntime
      else
        (case (case loaded endpoint of
                 Some f \<Rightarrow> Inr f
               | None \<Rightarrow>
                   (case signatures_of loaded of
                      Inl e \<Rightarrow> Inl e
                    | Inr sigs \<Rightarrow>
                        (case map_of sigs endpoint of
                           Some f \<Rightarrow> Inr (Callable f)
                         | None \<Rightarrow> Inl (EndpointNotFound endpoint (map fst sigs))))) of
           Inl e \<Rightarrow> Inl e
         | Inr endpoint_fn \<Rightarrow>
             (case (if truthy_name training_endpoint
                    then (case loaded (the training_endpoint) of
                            Some f \<Rightarrow> Inr (Some f)
                          | None \<Rightarrow>
                              (case signatures_of loaded of
                                 Inl e \<Rightarrow> Inl e
                               | Inr sigs \<Rightarrow>
                                   (case map_of sigs (the training_endpoint) of
                                      Some f \<Rightarrow> Inr (Some (Callable f))
                                    | None \<Rightarrow>
                                        Inl (EndpointNotFound (the training_endpoint)
                                               (map fst sigs)))))
                    else Inr None) of
                Inl e \<Rightarrow> Inl e
              | Inr training_fn \<Rightarrow>
                  (let all_fns = [endpoint_fn] @
                         (if truthy_name training_endpoint
                          then (case training_fn of None \<Rightarrow> [] | Some f \<Rightarrow> [f]) else [])
                   in case list_variables_used_by_fns gcf all_fns of
                        Inl e \<Rightarrow> Inl e
                      | Inr (tvs, ntvs) \<Rightarrow>
                          (let self = \<lparr>reloaded_obj = loaded, filepath = path,
                                       call_endpoint = endpoint,
                                       call_training_endpoint = training_endpoint,
                                       call_endpoint_fn = endpoint_fn,
                                       call_training_endpoint_fn = training_fn,
                                       trainable_weights = [], non_trainable_weights = [],
                                       layer_built = False\<rparr>;
                               self1 = add_existing_weights flag tvs self;
                               self2 = add_existing_weights flag ntvs self1
                           in Inr (self2\<lparr>layer_built := True\<rparr>))))))"

text \<open>
  \<^verbatim>\<open>TFSMLayer.call\<close>. Running a function is the collaborator's work: the outcome is the
  function invoked and the arguments it is invoked with.
\<close>

definition invoke :: "py_value \<Rightarrow> 'i \<Rightarrow> 'k \<Rightarrow> error + (callable \<times> 'i \<times> 'k)" where
  "invoke f inputs kwargs =
     (case f of Callable c \<Rightarrow> Inr (c, inputs, kwargs) | _ \<Rightarrow> Inl TypeError)"

definition call :: "tfsm_layer \<Rightarrow> 'i \<Rightarrow> bool \<Rightarrow> 'k \<Rightarrow> error + (callable \<times> 'i \<times> 'k)" where
  "call self inputs training kwargs =
     (if training \<and> truthy_name (call_training_endpoint self)
      then (case call_training_endpoint_fn self of
              None \<Rightarrow> Inl (AttributeError ''call_training_endpoint_fn'')
            | Some f \<Rightarrow> invoke f inputs kwargs)
      else invoke (call_endpoint_fn self) inputs kwargs)"

subsection \<open>Vocabulary of the claims about the reloaded layer\<close>

text \<open>
  The resolution rule as the specification words it: the name is looked up first as a
  direct named entry of the loaded artifact, then in its signature map; when neither
  resolves, the error is endpoint-not-found and lists the names of the signature map.
\<close>

definition resolve_endpoint :: "(string \<rightharpoonup> py_value) \<Rightarrow> string \<Rightarrow> error + py_value" where
  "resolve_endpoint loaded name =
     (case loaded name of
        Some f \<Rightarrow> Inr f
      | None \<Rightarrow>
          (case signatures_of loaded of
             Inl e \<Rightarrow> Inl e
           | Inr sigs \<Rightarrow>
               (if name \<in> fst ` set sigs then Inr (Callable (the (map_of sigs name)))
                else Inl (EndpointNotFound name (map fst sigs)))))"

text \<open>The functions a reloaded layer collects its weights from.\<close>

definition endpoint_fns :: "tfsm_layer \<Rightarrow> py_value list" where
  "endpoint_fns self =
     call_endpoint_fn self #
       (case call_training_endpoint_fn self of None \<Rightarrow> [] | Some f \<Rightarrow> [f])"

section \<open>Concrete scenarios\<close>

text \<open>
  The values the closed statements below are evaluated at: three parameters, a trace that
  references all three and lists the first two as trainable, and a trace that references
  the third and the first and lists none as trainable.
\<close>

definition v1 :: variable where "v1 = Variable 1"
definition v2 :: variable where "v2 = Variable 2"
definition v3 :: variable where "v3 = Variable 3"

definition serve_trace :: concrete_function where
  "serve_trace = \<lparr>trainable_variables = [v1, v2], variables = [v1, v2, v3]\<rparr>"

definition frozen_trace :: concrete_function where
  "frozen_trace = \<lparr>trainable_variables = [], variables = [v3, v1]\<rparr>"

text \<open>A tracing collaborator that traces every \<^verbatim>\<open>tf.function\<close> to \<open>serve_trace\<close>.\<close>

definition trace_serve :: "callable \<Rightarrow> concrete_function option" where
  "trace_serve f = Some serve_trace"

text \<open>
  An archive as \<^verbatim>\<open>ExportArchive()\<close> leaves it under TensorFlow and under JAX, a built
  layer with two trainable parameters and one that is not, a signature, and a
  \<^verbatim>\<open>tf.function\<close> before and after its first call.
\<close>

definition new_archive :: "export_backend \<Rightarrow> export_archive" where
  "new_archive b =
     \<lparr>backend_of = b, endpoint_names = [], endpoint_signatures = Map.empty,
      tf_trackable = [''variables'' \<mapsto> PyList [], ''trainable_variables'' \<mapsto> PyList [],
                      ''non_trainable_variables'' \<mapsto> PyList []],
      backend_variables = [], backend_trainable_variables = [],
      backend_non_trainable_variables = [], tracked = None, next_id = 100\<rparr>"

definition dense_layer :: resource where
  "dense_layer =
     \<lparr>is_tf_trackable = True, is_jax_layer = True, is_layer = True, built = True,
      layer_variables = [v1, v2, v3], layer_trainable_variables = [v1, v2],
      layer_non_trainable_variables = [v3], descendants = [(10, False), (11, True)]\<rparr>"

definition serve_signature :: "spec list" where
  "serve_signature = [TensorSpec [None, Some 3] ''float32'']"

definition untraced_fn :: callable where
  "untraced_fn = TfFunction (PyFunction 0) None True []"

definition traced_fn :: callable where
  "traced_fn = TfFunction (PyFunction 0) None True [serve_trace]"

text \<open>The TensorFlow archive after \<^verbatim>\<open>add_endpoint("serve", fn, serve_signature)\<close>.\<close>

definition serve_archive :: export_archive where
  "serve_archive =
     \<lparr>backend_of = TensorflowBackend, endpoint_names = [''serve''],
      endpoint_signatures = [''serve'' \<mapsto> serve_signature],
      tf_trackable = [''variables'' \<mapsto> PyList [], ''trainable_variables'' \<mapsto> PyList [],
                      ''non_trainable_variables'' \<mapsto> PyList [],
                      ''serve'' \<mapsto> Callable (TfFunction (PyFunction 0) (Some serve_signature) True [])],
      backend_variables = [], backend_trainable_variables = [],
      backend_non_trainable_variables = [], tracked = None, next_id = 100\<rparr>"

text \<open>
  A reloaded artifact with the endpoint \<^verbatim>\<open>serve\<close> as an attribute and in the signature
  map, and the trainable flags of the three parameters.
\<close>

definition serve_artifact :: "string \<rightharpoonup> py_value" where
  "serve_artifact =
     [''serve'' \<mapsto> Callable (RestoredFunction [serve_trace]),
      ''signatures'' \<mapsto> SignatureMap [(''serve'', ConcreteFunction serve_trace),
                                         (''serving_default'', ConcreteFunction serve_trace)]]"

definition trainable_flag :: "variable \<Rightarrow> bool" where
  "trainable_flag v \<longleftrightarrow> v = v1 \<or> v = v2"

text \<open>
  The layer reloaded from that artifact with the call endpoint \<^verbatim>\<open>serve\<close>, without and
  with \<^verbatim>\<open>serving_default\<close> as its training endpoint.
\<close>

definition serve_layer :: tfsm_layer where
  "serve_layer =
     \<lparr>reloaded_obj = serve_artifact, filepath = ''artifact'', call_endpoint = ''serve'',
      call_training_endpoint = None,
      call_endpoint_fn = Callable (RestoredFunction [serve_trace]),
      call_training_endpoint_fn = None,
      trainable_weights = [v1, v2], non_trainable_weights = [v3], layer_built = True\<rparr>"

definition train_layer :: tfsm_layer where
  "train_layer =
     \<lparr>reloaded_obj = serve_artifact, filepath = ''artifact'', call_endpoint = ''serve'',
      call_training_endpoint = Some ''serving_default'',
      call_endpoint_fn = Callable (RestoredFunction [serve_trace]),
      call_training_endpoint_fn = Some (Callable (ConcreteFunction serve_trace)),
      trainable_weights = [v1, v2], non_trainable_weights = [v3], layer_built = True\<rparr>"

text \<open>
  The TensorFlow archive after \<^verbatim>\<open>add_endpoint("_all_variables", fn, serve_signature)\<close>,
  and the archive after \<^verbatim>\<open>add_endpoint("predict", traced_fn)\<close> followed by
  \<^verbatim>\<open>add_endpoint("serving_default", fn, serve_signature)\<close> under JAX.
\<close>

definition reserved_archive :: export_archive where
  "reserved_archive =
     \<lparr>backend_of = TensorflowBackend, endpoint_names = [''_all_variables''],
      endpoint_signatures = [''_all_variables'' \<mapsto> serve_signature],
      tf_trackable = [''variables'' \<mapsto> PyList [], ''trainable_variables'' \<mapsto> PyList [],
                      ''non_trainable_variables'' \<mapsto> PyList [],
                      ''_all_variables'' \<mapsto>
                         Callable (TfFunction (PyFunction 0) (Some serve_signature) True [])],
      backend_variables = [], backend_trainable_variables = [],
      backend_non_trainable_variables = [], tracked = None, next_id = 100\<rparr>"

definition two_endpoint_archive :: export_archive where
  "two_endpoint_archive =
     \<lparr>backend_of = JaxBackend, endpoint_names = [''predict'', ''serving_default''],
      endpoint_signatures = [''serving_default'' \<mapsto> serve_signature],
      tf_trackable = [''variables'' \<mapsto> PyList [], ''trainable_variables'' \<mapsto> PyList [],
                      ''non_trainable_variables'' \<mapsto> PyList [],
                      ''predict'' \<mapsto> Callable traced_fn,
                      ''serving_default'' \<mapsto>
                         Callable (TfFunction (StatefulFn (PyFunction 0) 1)
                                     (Some serve_signature) False [])],
      backend_variables = [], backend_trainable_variables = [],
      backend_non_trainable_variables = [], tracked = None, next_id = 100\<rparr>"

section \<open>Invariants\<close>

text \<open>
  The collector invariant: the identity sets are the identities of the accumulated
  sequences, and each sequence is the first-occurrence list of a history of sightings.
\<close>

definition collector_inv :: "variable list \<Rightarrow> variable list \<Rightarrow> collector \<Rightarrow> bool" where
  "collector_inv H N s \<longleftrightarrow>
     trainable_acc s = first_occurrences H \<and>
     non_trainable_acc s = first_occurrences N \<and>
     trainable_variables_ids s = py_id ` set H \<and>
     non_trainable_variables_ids s = py_id ` set N"

text \<open>
  The invariant of the weights of a reloaded layer: no identity is owned twice, the
  trainable weights have their trainable flag set and the others have not.
\<close>

definition weights_inv :: "(variable \<Rightarrow> bool) \<Rightarrow> tfsm_layer \<Rightarrow> bool" where
  "weights_inv flag self \<longleftrightarrow>
     distinct (trainable_weights self @ non_trainable_weights self)
     \<and> (\<forall>v \<in> set (trainable_weights self). flag v)
     \<and> (\<forall>v \<in> set (non_trainable_weights self). \<not> flag v)"

section \<open>Properties of the collection\<close>

lemma first_occurrences_Nil: "first_occurrences [] = []"
  by (simp add: first_occurrences_def)

lemma first_occurrences_snoc:
  "first_occurrences (xs @ [x]) =
     (if x \<in> set xs then first_occurrences xs else first_occurrences xs @ [x])"
  by (simp add: first_occurrences_def)

lemma set_first_occurrences: "set (first_occurrences xs) = set xs"
  by (simp add: first_occurrences_def)

lemma distinct_first_occurrences: "distinct (first_occurrences xs)"
  by (simp add: first_occurrences_def)

lemma py_id_image_iff: "py_id v \<in> py_id ` A \<longleftrightarrow> v \<in> A"
  by (metis image_iff variable.expand)

lemma add_trainable_inv:
  "collector_inv H N s \<Longrightarrow> collector_inv (H @ vs) N (add_trainable vs s)"
proof (induction vs arbitrary: H s)
  case Nil
  then show ?case by simp
next
  case (Cons v vs)
  let ?s = "if py_id v \<notin> trainable_variables_ids s
        then s\<lparr>trainable_acc := trainable_acc s @ [v],
               trainable_variables_ids := insert (py_id v) (trainable_variables_ids s)\<rparr>
        else s"
  have "collector_inv (H @ [v]) N ?s"
    using Cons.prems
    by (auto simp: collector_inv_def first_occurrences_snoc py_id_image_iff)
  from Cons.IH[OF this] have "collector_inv ((H @ [v]) @ vs) N (add_trainable vs ?s)" .
  moreover have "add_trainable (v # vs) s = add_trainable vs ?s" by simp
  ultimately show ?case by (simp only: append_assoc append_Cons append_Nil)
qed

lemma add_non_trainable_inv:
  "collector_inv H N s \<Longrightarrow>
   collector_inv H (N @ filter (\<lambda>v. v \<notin> set H) vs) (add_non_trainable vs s)"
proof (induction vs arbitrary: N s)
  case Nil
  then show ?case by simp
next
  case (Cons v vs)
  let ?s = "if py_id v \<notin> trainable_variables_ids s \<and> py_id v \<notin> non_trainable_variables_ids s
        then s\<lparr>non_trainable_acc := non_trainable_acc s @ [v],
               non_trainable_variables_ids := insert (py_id v) (non_trainable_variables_ids s)\<rparr>
        else s"
  have "collector_inv H (N @ filter (\<lambda>v. v \<notin> set H) [v]) ?s"
    using Cons.prems
    by (auto simp: collector_inv_def first_occurrences_snoc py_id_image_iff)
  from Cons.IH[OF this]
  have "collector_inv H ((N @ filter (\<lambda>v. v \<notin> set H) [v]) @ filter (\<lambda>v. v \<notin> set H) vs)
          (add_non_trainable vs ?s)" .
  moreover have "add_non_trainable (v # vs) s = add_non_trainable vs ?s" by simp
  moreover have "(N @ filter (\<lambda>v. v \<notin> set H) [v]) @ filter (\<lambda>v. v \<notin> set H) vs
                   = N @ filter (\<lambda>v. v \<notin> set H) (v # vs)" by simp
  ultimately show ?case by (simp only:)
qed

lemma over_concrete_functions_inv:
  "collector_inv H N s \<Longrightarrow>
   collector_inv (H @ concat (map trainable_variables cs))
     (N @ non_trainable_sightings (set H) cs) (over_concrete_functions cs s)"
proof (induction cs arbitrary: H N s)
  case Nil
  then show ?case by simp
next
  case (Cons c cs)
  have "collector_inv (H @ trainable_variables c)
          (N @ filter (\<lambda>v. v \<notin> set (H @ trainable_variables c)) (variables c))
          (add_non_trainable (variables c) (add_trainable (trainable_variables c) s))"
    by (rule add_non_trainable_inv) (rule add_trainable_inv, rule Cons.prems)
  from Cons.IH[OF this] show ?case by simp
qed

lemma over_concrete_functions_append:
  "over_concrete_functions (cs @ ds) s = over_concrete_functions ds (over_concrete_functions cs s)"
  by (induction cs arbitrary: s) simp_all

lemma over_fns_traces:
  "traces_of gcf fns = Inr cs \<Longrightarrow> over_fns gcf fns s = Inr (over_concrete_functions cs s)"
proof (induction fns arbitrary: cs s)
  case Nil
  then show ?case by simp
next
  case (Cons fn fns)
  then show ?case
    by (auto split: sum.splits simp: over_concrete_functions_append)
qed
lemma map_of_sightings_of:
  "map_of (sightings_of c) v =
     (if v \<in> set (trainable_variables c) then Some True
      else if v \<in> set (variables c) then Some False else None)"
proof -
  have a: "map_of (map (\<lambda>v. (v, b)) xs) v = (if v \<in> set xs then Some b else None)"
    for b :: bool and xs :: "variable list"
    by (induction xs) auto
  show ?thesis
    by (simp add: sightings_of_def map_of_append map_add_def a)
qed

lemma map_of_sightings_Cons:
  "map_of (sightings (c # cs)) v =
     (if v \<in> set (trainable_variables c) then Some True
      else if v \<in> set (variables c) then Some False else map_of (sightings cs) v)"
  by (simp add: sightings_def map_of_append map_add_def map_of_sightings_of)

lemma map_of_sightings_Nil: "map_of (sightings []) v = None"
  by (simp add: sightings_def)

lemma non_trainable_sightings_iff:
  "v \<in> set (non_trainable_sightings T cs) \<longleftrightarrow> v \<notin> T \<and> map_of (sightings cs) v = Some False"
proof (induction cs arbitrary: T)
  case Nil
  then show ?case by (simp add: map_of_sightings_Nil)
next
  case (Cons c cs)
  then show ?case by (auto simp: map_of_sightings_Cons)
qed

lemma first_sighting_trainable:
  "map_of (sightings cs) v = Some True \<Longrightarrow> v \<in> set (concat (map trainable_variables cs))"
  by (induction cs) (auto simp: map_of_sightings_Nil map_of_sightings_Cons split: if_splits)

lemma listed_trainable_sighted:
  "v \<in> set (concat (map trainable_variables cs)) \<Longrightarrow> map_of (sightings cs) v \<noteq> None"
  by (induction cs) (auto simp: map_of_sightings_Cons)

lemma referenced_iff_sighted: "v \<in> referenced cs \<longleftrightarrow> map_of (sightings cs) v \<noteq> None"
  by (induction cs) (auto simp: referenced_def map_of_sightings_Nil map_of_sightings_Cons)

lemma over_fns_empty_collector:
  assumes "traces_of gcf fns = Inr cs"
  shows "list_variables_used_by_fns gcf fns =
           Inr (first_occurrences (concat (map trainable_variables cs)),
                first_occurrences (non_trainable_sightings {} cs))"
proof -
  have "collector_inv [] [] empty_collector"
    by (simp add: collector_inv_def empty_collector_def first_occurrences_Nil)
  from over_concrete_functions_inv[OF this, of cs]
  have "collector_inv (concat (map trainable_variables cs)) (non_trainable_sightings {} cs)
          (over_concrete_functions cs empty_collector)"
    by simp
  then show ?thesis
    using over_fns_traces[OF assms, of empty_collector]
    by (simp add: list_variables_used_by_fns_def collector_inv_def)
qed

lemma list_variables_used_by_fns_fails:
  "traces_of gcf fns = Inl e \<Longrightarrow> list_variables_used_by_fns gcf fns = Inl e"
proof -
  have "traces_of gcf fns = Inl e \<Longrightarrow> over_fns gcf fns s = Inl e" for s
    by (induction fns arbitrary: s) (auto split: sum.splits simp: over_fns_traces)
  then show "traces_of gcf fns = Inl e \<Longrightarrow> list_variables_used_by_fns gcf fns = Inl e"
    by (simp add: list_variables_used_by_fns_def)
qed

section \<open>Properties of the archive operations\<close>

lemma add_endpoint_duplicate:
  "name \<in> set (endpoint_names self) \<Longrightarrow>
   add_endpoint name fn input_signature self = (Inl (DuplicateEndpointName name), self)"
  by (simp add: add_endpoint_def)

lemma add_endpoint_signature:
  "name \<notin> set (endpoint_names self) \<Longrightarrow>
   add_endpoint name fn (Some (s # ss)) self =
     (Inr (), self\<lparr>endpoint_signatures := (endpoint_signatures self)(name \<mapsto> s # ss),
                   tf_trackable := (tf_trackable self)
                     (name \<mapsto> Callable (decorate (backend_of self) fn (s # ss))),
                   endpoint_names := endpoint_names self @ [name]\<rparr>)"
  by (simp add: add_endpoint_def setattr_trackable_def)

lemma add_endpoint_no_signature:
  "name \<notin> set (endpoint_names self) \<Longrightarrow> \<not> truthy_signature input_signature \<Longrightarrow>
   add_endpoint name fn input_signature self =
     (if is_generic_function fn
      then if list_all_concrete_functions fn = [] then (Inl UnspecializedFunction, self)
           else (Inr (), self\<lparr>tf_trackable := (tf_trackable self)(name \<mapsto> Callable fn),
                              endpoint_names := endpoint_names self @ [name]\<rparr>)
      else (Inl MissingSignature, self))"
  by (simp add: add_endpoint_def setattr_trackable_def)

lemma new_archive_simps:
  "backend_of (new_archive b) = b"
  "endpoint_names (new_archive b) = []"
  "endpoint_signatures (new_archive b) = Map.empty"
  "tracked (new_archive b) = None"
  "next_id (new_archive b) = 100"
  by (simp_all add: new_archive_def)


lemma serve_archive_simps:
  "backend_of serve_archive = TensorflowBackend"
  "endpoint_names serve_archive = [''serve'']"
  "endpoint_signatures serve_archive = [''serve'' \<mapsto> serve_signature]"
  "tracked serve_archive = None"
  by (simp_all add: serve_archive_def)

lemma iadd_trackable_list:
  "tf_trackable self name = Some (PyList xs) \<Longrightarrow>
   iadd_trackable name vs self =
     (Inr (), self\<lparr>tf_trackable := (tf_trackable self)(name \<mapsto> PyList (xs @ map Var vs))\<rparr>)"
  by (simp add: iadd_trackable_def setattr_trackable_def)

lemma iadd_trackable_cases:
  "iadd_trackable name vs self = (r, self') \<Longrightarrow>
   (r = Inr () \<or> r = Inl (AttributeError name) \<or> r = Inl TypeError)
   \<and> tracked self' = tracked self"
  by (auto simp: iadd_trackable_def setattr_trackable_def
      split: option.splits py_value.splits)

lemma iadd_mirrors_list:
  "tf_trackable self name = Some (PyList xs) \<Longrightarrow>
   iadd_mirrors name vs self =
     (Inr (), self\<lparr>next_id := next_id self + length vs,
                   tf_trackable := (tf_trackable self)
                     (name \<mapsto> PyList (xs @ map Var
                        (map Variable [next_id self ..< next_id self + length vs])))\<rparr>)"
  by (simp add: iadd_mirrors_def mirror_variables_def setattr_trackable_def)

lemma iadd_mirrors_cases:
  "iadd_mirrors name vs self = (r, self') \<Longrightarrow>
   (r = Inr () \<or> r = Inl (AttributeError name) \<or> r = Inl TypeError)
   \<and> tracked self' = tracked self"
  by (auto simp: iadd_mirrors_def mirror_variables_def setattr_trackable_def
      split: option.splits py_value.splits)

lemma track_tf_cases:
  "track_tf resource self = (r, self') \<Longrightarrow>
   r \<noteq> Inl InvalidResourceType \<and> r \<noteq> Inl NotBuilt \<and> tracked self' = tracked self"
  unfolding track_tf_def
  by (auto split: prod.splits sum.splits dest!: iadd_trackable_cases)

lemma track_jax_cases:
  "track_jax resource self = (r, self') \<Longrightarrow>
   r \<noteq> Inl InvalidResourceType \<and> r \<noteq> Inl NotBuilt \<and> tracked self' = tracked self"
  unfolding track_jax_def Let_def
  by (auto simp: setattr_trackable_def
      split: prod.splits sum.splits option.splits py_value.splits dest!: iadd_mirrors_cases)

lemma track_tf_lists:
  assumes "tf_trackable self ''variables'' = Some (PyList xs)"
    and "tf_trackable self ''trainable_variables'' = Some (PyList ys)"
    and "tf_trackable self ''non_trainable_variables'' = Some (PyList zs)"
  shows "track_tf resource self =
     (Inr (), self\<lparr>tf_trackable := (tf_trackable self)
        (''variables'' \<mapsto> PyList (xs @ map Var (layer_variables resource)),
         ''trainable_variables'' \<mapsto> PyList (ys @ map Var (layer_trainable_variables resource)),
         ''non_trainable_variables'' \<mapsto>
            PyList (zs @ map Var (layer_non_trainable_variables resource)))\<rparr>)"
  using assms by (simp add: track_tf_def iadd_trackable_list)

lemma track_jax_lists:
  assumes "tf_trackable self ''trainable_variables'' = Some (PyList ys)"
    and "tf_trackable self ''non_trainable_variables'' = Some (PyList zs)"
  shows "track_jax resource self =
     (let kt = length (layer_trainable_variables resource);
          kn = length (layer_non_trainable_variables resource);
          n = next_id self;
          ts = ys @ map Var (map Variable [n ..< n + kt]);
          ns = zs @ map Var (map Variable [n + kt ..< n + kt + kn])
      in (Inr (),
          self\<lparr>backend_trainable_variables :=
                  backend_trainable_variables self @ layer_trainable_variables resource,
               backend_non_trainable_variables :=
                  backend_non_trainable_variables self @ layer_non_trainable_variables resource,
               backend_variables :=
                  (backend_trainable_variables self @ layer_trainable_variables resource)
                  @ (backend_non_trainable_variables self
                     @ layer_non_trainable_variables resource),
               next_id := n + kt + kn,
               tf_trackable := (tf_trackable self)
                 (''trainable_variables'' \<mapsto> PyList ts,
                  ''non_trainable_variables'' \<mapsto> PyList ns,
                  ''variables'' \<mapsto> PyList (ts @ ns))\<rparr>))"
  using assms
  by (simp add: track_jax_def Let_def iadd_mirrors_list setattr_trackable_def add.assoc)

lemma track_layer:
  assumes "trackable_capability self resource" "is_layer resource" "built resource"
  shows "track resource self =
     (let self1 = self\<lparr>tracked :=
                    Some ((case tracked self of None \<Rightarrow> [] | Some rs \<Rightarrow> rs) @ [resource])\<rparr>
      in if backend_of self = JaxBackend then track_jax resource self1
         else track_tf resource self1)"
  using assms
  by (cases "backend_of self") (simp_all add: track_def trackable_capability_def)

lemma new_archive_attributes:
  "tf_trackable (new_archive b) ''variables'' = Some (PyList [])"
  "tf_trackable (new_archive b) ''trainable_variables'' = Some (PyList [])"
  "tf_trackable (new_archive b) ''non_trainable_variables'' = Some (PyList [])"
  by (simp_all add: new_archive_def)

lemma dense_layer_simps:
  "is_tf_trackable dense_layer" "is_jax_layer dense_layer" "is_layer dense_layer"
  "built dense_layer"
  "layer_variables dense_layer = [v1, v2, v3]"
  "layer_trainable_variables dense_layer = [v1, v2]"
  "layer_non_trainable_variables dense_layer = [v3]"
  by (simp_all add: dense_layer_def)

lemma track_dense_layer_twice:
  "archive_variables (snd (track dense_layer (snd (track dense_layer
       (new_archive TensorflowBackend)))))
     = Inr (PyList [Var v1, Var v2, Var v3, Var v1, Var v2, Var v3])"
proof -
  let ?a = "new_archive TensorflowBackend"
  have cap: "trackable_capability s dense_layer" if "backend_of s = TensorflowBackend" for s
    using that by (simp add: trackable_capability_def dense_layer_simps)
  let ?s0 = "?a\<lparr>tracked := Some [dense_layer]\<rparr>"
  have l0: "tf_trackable ?s0 ''variables'' = Some (PyList [])"
    "tf_trackable ?s0 ''trainable_variables'' = Some (PyList [])"
    "tf_trackable ?s0 ''non_trainable_variables'' = Some (PyList [])"
    by (simp_all add: new_archive_attributes)
  have one: "track dense_layer ?a = track_tf dense_layer ?s0"
    using track_layer[OF cap, of ?a]
    by (simp add: Let_def new_archive_simps dense_layer_simps)
  define s1 where "s1 = snd (track dense_layer ?a)"
  have b1: "backend_of s1 = TensorflowBackend"
    unfolding s1_def one by (simp add: track_tf_lists[OF l0] new_archive_simps)
  let ?s2 = "s1\<lparr>tracked := Some ((case tracked s1 of None \<Rightarrow> [] | Some rs \<Rightarrow> rs) @ [dense_layer])\<rparr>"
  have l1: "tf_trackable ?s2 ''variables'' = Some (PyList [Var v1, Var v2, Var v3])"
    "tf_trackable ?s2 ''trainable_variables'' = Some (PyList [Var v1, Var v2])"
    "tf_trackable ?s2 ''non_trainable_variables'' = Some (PyList [Var v3])"
    unfolding s1_def one by (simp_all add: track_tf_lists[OF l0] dense_layer_simps)
  have two: "track dense_layer s1 = track_tf dense_layer ?s2"
    using track_layer[OF cap[OF b1]] b1 by (simp add: Let_def dense_layer_simps)
  show ?thesis
    unfolding s1_def[symmetric] two
    by (simp add: track_tf_lists[OF l1] archive_variables_def getattr_trackable_def
          dense_layer_simps)
qed

lemma setattr_trackable_simps:
  "backend_of (setattr_trackable name v self) = backend_of self"
  "endpoint_names (setattr_trackable name v self) = endpoint_names self"
  "endpoint_signatures (setattr_trackable name v self) = endpoint_signatures self"
  "tracked (setattr_trackable name v self) = tracked self"
  "tf_trackable (setattr_trackable name v self) = (tf_trackable self)(name \<mapsto> v)"
  by (simp_all add: setattr_trackable_def)

lemma ExportArchive_init_new_archive:
  "ExportArchive_init Tensorflow 100 = Inr (new_archive TensorflowBackend)"
  "ExportArchive_init Jax 100 = Inr (new_archive JaxBackend)"
  "ExportArchive_init Torch 100 = Inl UnsupportedRuntime"
  "ExportArchive_init Numpy 100 = Inl UnsupportedRuntime"
  by (simp_all add: ExportArchive_init_def new_archive_def)

lemma get_concrete_fn_error:
  "get_concrete_fn self name = Inl e \<Longrightarrow> e \<noteq> NoEndpoints"
  by (auto simp: get_concrete_fn_def getattr_trackable_def
      split: if_splits option.splits sum.splits list.splits elim!: trackable_children.elims)

lemma get_concrete_fns_error:
  "get_concrete_fns self names = Inl e \<Longrightarrow> e \<noteq> NoEndpoints"
  by (induction names arbitrary: e)
     (auto split: sum.splits dest: get_concrete_fn_error)

lemma concrete_functions_of_error:
  "concrete_functions_of gcf fn = Inl e \<Longrightarrow> e \<noteq> NoEndpoints"
  by (auto elim!: concrete_functions_of.elims split: option.splits)

lemma over_fns_error:
  "over_fns gcf fns s = Inl e \<Longrightarrow> e \<noteq> NoEndpoints"
  by (induction fns arbitrary: s)
     (auto split: sum.splits dest: concrete_functions_of_error)

lemma list_variables_used_by_fns_error:
  "list_variables_used_by_fns gcf fns = Inl e \<Longrightarrow> e \<noteq> NoEndpoints"
  by (auto simp: list_variables_used_by_fns_def split: sum.splits dest: over_fns_error)

lemma get_concrete_fn_cong:
  "endpoint_signatures a = endpoint_signatures b \<Longrightarrow> tf_trackable a name = tf_trackable b name
   \<Longrightarrow> get_concrete_fn a name = get_concrete_fn b name"
  by (simp add: get_concrete_fn_def getattr_trackable_def)

lemma filter_and_track_resources_frame:
  assumes "filter_and_track_resources gcf self = (r, self')"
  shows "r \<noteq> Inl NoEndpoints"
    and "endpoint_names self' = endpoint_names self"
    and "endpoint_signatures self' = endpoint_signatures self"
    and "name \<noteq> ''_all_variables'' \<Longrightarrow> name \<noteq> ''_misc_assets''
         \<Longrightarrow> tf_trackable self' name = tf_trackable self name"
  using assms
  by (auto simp: filter_and_track_resources_def setattr_trackable_def Let_def
      split: sum.splits prod.splits option.splits
      dest: get_concrete_fns_error list_variables_used_by_fns_error)

lemma fill_signatures_error:
  "fill_signatures self names m = Inl e \<Longrightarrow> e \<noteq> NoEndpoints"
  by (induction names arbitrary: m)
     (auto split: sum.splits dest: get_concrete_fn_error)

lemma fill_signatures_result:
  "fill_signatures self names m = Inr signatures \<Longrightarrow>
   signatures name =
     (if name \<in> set names then
        (case get_concrete_fn self name of Inr f \<Rightarrow> Some f | Inl e \<Rightarrow> None)
      else m name)
   \<and> (name \<in> set names \<longrightarrow> (\<exists>f. get_concrete_fn self name = Inr f))"
proof (induction names arbitrary: m)
  case Nil
  then show ?case by simp
next
  case (Cons n names)
  then obtain f where f: "get_concrete_fn self n = Inr f"
    and rest: "fill_signatures self names (m(n \<mapsto> f)) = Inr signatures"
    by (auto split: sum.splits)
  from Cons.IH[OF rest] f show ?case by (auto split: sum.splits)
qed

section \<open>Properties of the reloaded layer\<close>

lemma collected_set:
  "set (concat (map trainable_variables cs)) \<union> set (non_trainable_sightings {} cs)
     = referenced cs"
proof (rule set_eqI)
  fix v
  show "v \<in> set (concat (map trainable_variables cs)) \<union> set (non_trainable_sightings {} cs)
          \<longleftrightarrow> v \<in> referenced cs"
  proof
    assume "v \<in> set (concat (map trainable_variables cs)) \<union> set (non_trainable_sightings {} cs)"
    then have "map_of (sightings cs) v \<noteq> None"
      using listed_trainable_sighted[of v cs] non_trainable_sightings_iff[of v "{}" cs]
      by auto
    then show "v \<in> referenced cs" by (simp add: referenced_iff_sighted)
  next
    assume "v \<in> referenced cs"
    then obtain b where "map_of (sightings cs) v = Some b"
      by (auto simp: referenced_iff_sighted)
    then show "v \<in> set (concat (map trainable_variables cs))
                 \<union> set (non_trainable_sightings {} cs)"
      using first_sighting_trainable[of cs v] non_trainable_sightings_iff[of v "{}" cs]
      by (cases b) auto
  qed
qed

lemma map_of_case_if:
  "(case map_of sigs name of Some f \<Rightarrow> A f | None \<Rightarrow> B)
     = (if name \<in> fst ` set sigs then A (the (map_of sigs name)) else B)"
proof (cases "map_of sigs name")
  case None
  then have "name \<notin> fst ` set sigs"
    by (simp add: map_of_eq_None_iff)
  with None show ?thesis by simp
next
  case (Some f)
  then have "name \<in> fst ` set sigs"
    by (metis map_of_eq_None_iff option.distinct(1))
  with Some show ?thesis by simp
qed

lemma resolve_endpoint_code:
  "(case loaded name of
      Some f \<Rightarrow> Inr f
    | None \<Rightarrow>
        (case signatures_of loaded of
           Inl e \<Rightarrow> Inl e
         | Inr sigs \<Rightarrow>
             (case map_of sigs name of
                Some f \<Rightarrow> Inr (Callable f)
              | None \<Rightarrow> Inl (EndpointNotFound name (map fst sigs)))))
   = resolve_endpoint loaded name"
  by (simp add: resolve_endpoint_def map_of_case_if split: option.splits sum.splits)

lemma resolve_training_code:
  "(case loaded name of
      Some f \<Rightarrow> Inr (Some f)
    | None \<Rightarrow>
        (case signatures_of loaded of
           Inl e \<Rightarrow> Inl e
         | Inr sigs \<Rightarrow>
             (case map_of sigs name of
                Some f \<Rightarrow> Inr (Some (Callable f))
              | None \<Rightarrow> Inl (EndpointNotFound name (map fst sigs)))))
   = (case resolve_endpoint loaded name of Inl e \<Rightarrow> Inl e | Inr f \<Rightarrow> Inr (Some f))"
  by (simp add: resolve_endpoint_def map_of_case_if split: option.splits sum.splits)

lemma TFSMLayer_init_unfold:
  "TFSMLayer_init b gcf flag loaded path endpoint training_endpoint =
     (if b \<noteq> Tensorflow then Inl UnsupportedRuntime
      else
        (case resolve_endpoint loaded endpoint of
           Inl e \<Rightarrow> Inl e
         | Inr endpoint_fn \<Rightarrow>
             (case (if truthy_name training_endpoint
                    then (case resolve_endpoint loaded (the training_endpoint) of
                            Inl e \<Rightarrow> Inl e | Inr f \<Rightarrow> Inr (Some f))
                    else Inr None) of
                Inl e \<Rightarrow> Inl e
              | Inr training_fn \<Rightarrow>
                  (case list_variables_used_by_fns gcf
                          (endpoint_fn # (case training_fn of None \<Rightarrow> [] | Some f \<Rightarrow> [f])) of
                     Inl e \<Rightarrow> Inl e
                   | Inr (tvs, ntvs) \<Rightarrow>
                       Inr ((add_existing_weights flag ntvs
                              (add_existing_weights flag tvs
                                 \<lparr>reloaded_obj = loaded, filepath = path,
                                  call_endpoint = endpoint,
                                  call_training_endpoint = training_endpoint,
                                  call_endpoint_fn = endpoint_fn,
                                  call_training_endpoint_fn = training_fn,
                                  trainable_weights = [], non_trainable_weights = [],
                                  layer_built = False\<rparr>))\<lparr>layer_built := True\<rparr>)))))"
  unfolding TFSMLayer_init_def resolve_endpoint_code resolve_training_code Let_def
  by (auto split: sum.splits option.splits)

lemma add_existing_weights_fields:
  "reloaded_obj (add_existing_weights flag vs self) = reloaded_obj self"
  "filepath (add_existing_weights flag vs self) = filepath self"
  "call_endpoint (add_existing_weights flag vs self) = call_endpoint self"
  "call_training_endpoint (add_existing_weights flag vs self) = call_training_endpoint self"
  "call_endpoint_fn (add_existing_weights flag vs self) = call_endpoint_fn self"
  "call_training_endpoint_fn (add_existing_weights flag vs self) = call_training_endpoint_fn self"
  by (induction vs arbitrary: self;
      simp add: add_existing_weight_def track_variable_def)+

lemma add_existing_weights_inv:
  "weights_inv flag self \<Longrightarrow>
   weights_inv flag (add_existing_weights flag vs self)
   \<and> set (trainable_weights (add_existing_weights flag vs self))
       \<union> set (non_trainable_weights (add_existing_weights flag vs self))
     = set (trainable_weights self) \<union> set (non_trainable_weights self) \<union> set vs"
proof (induction vs arbitrary: self)
  case Nil
  then show ?case by simp
next
  case (Cons v vs)
  let ?s = "add_existing_weight flag v self"
  have i: "weights_inv flag ?s"
    using Cons.prems
    by (auto simp: weights_inv_def add_existing_weight_def track_variable_def)
  have u: "set (trainable_weights ?s) \<union> set (non_trainable_weights ?s)
             = set (trainable_weights self) \<union> set (non_trainable_weights self) \<union> {v}"
    by (auto simp: add_existing_weight_def track_variable_def)
  from Cons.IH[OF i] u show ?case by auto
qed

lemma concrete_functions_of_callable:
  "concrete_functions_of gcf f = Inr cs \<Longrightarrow> \<exists>c. f = Callable c"
  by (auto elim!: concrete_functions_of.elims)

lemma traces_of_total:
  "list_variables_used_by_fns gcf fns = Inr r \<Longrightarrow> \<exists>cs. traces_of gcf fns = Inr cs"
  using list_variables_used_by_fns_fails[of gcf fns]
  by (cases "traces_of gcf fns") auto

lemma traces_of_callable:
  "traces_of gcf fns = Inr cs \<Longrightarrow> f \<in> set fns \<Longrightarrow> \<exists>c. f = Callable c"
  by (induction fns arbitrary: cs)
     (auto split: sum.splits dest: concrete_functions_of_callable)

lemma TFSMLayer_init_success:
  assumes "TFSMLayer_init b gcf flag loaded path endpoint training_endpoint = Inr layer"
  shows "\<exists>endpoint_fn training_fn tvs ntvs.
           b = Tensorflow
           \<and> resolve_endpoint loaded endpoint = Inr endpoint_fn
           \<and> (if truthy_name training_endpoint
               then \<exists>f. training_fn = Some f
                      \<and> resolve_endpoint loaded (the training_endpoint) = Inr f
               else training_fn = None)
           \<and> list_variables_used_by_fns gcf
                (endpoint_fn # (case training_fn of None \<Rightarrow> [] | Some f \<Rightarrow> [f]))
               = Inr (tvs, ntvs)
           \<and> layer = (add_existing_weights flag ntvs
                        (add_existing_weights flag tvs
                           \<lparr>reloaded_obj = loaded, filepath = path,
                            call_endpoint = endpoint,
                            call_training_endpoint = training_endpoint,
                            call_endpoint_fn = endpoint_fn,
                            call_training_endpoint_fn = training_fn,
                            trainable_weights = [], non_trainable_weights = [],
                            layer_built = False\<rparr>))\<lparr>layer_built := True\<rparr>"
  using assms unfolding TFSMLayer_init_unfold
  by (auto split: if_splits sum.splits prod.splits)

lemma TFSMLayer_init_fields:
  assumes "TFSMLayer_init b gcf flag loaded path endpoint training_endpoint = Inr layer"
  shows "resolve_endpoint loaded endpoint = Inr (call_endpoint_fn layer)"
    and "truthy_name training_endpoint \<Longrightarrow>
           \<exists>f. call_training_endpoint_fn layer = Some f
             \<and> resolve_endpoint loaded (the training_endpoint) = Inr f"
    and "\<not> truthy_name training_endpoint \<Longrightarrow> call_training_endpoint_fn layer = None"
    and "call_training_endpoint layer = training_endpoint"
    and "\<exists>tvs ntvs. list_variables_used_by_fns gcf (endpoint_fns layer) = Inr (tvs, ntvs)
           \<and> weights_inv flag layer
           \<and> set (trainable_weights layer) \<union> set (non_trainable_weights layer)
               = set tvs \<union> set ntvs"
proof -
  from TFSMLayer_init_success[OF assms] obtain endpoint_fn training_fn tvs ntvs where
    r: "resolve_endpoint loaded endpoint = Inr endpoint_fn"
    and t: "if truthy_name training_endpoint
               then \<exists>f. training_fn = Some f
                      \<and> resolve_endpoint loaded (the training_endpoint) = Inr f
               else training_fn = None"
    and l: "list_variables_used_by_fns gcf
                (endpoint_fn # (case training_fn of None \<Rightarrow> [] | Some f \<Rightarrow> [f]))
               = Inr (tvs, ntvs)"
    and layer: "layer = (add_existing_weights flag ntvs
                        (add_existing_weights flag tvs
                           \<lparr>reloaded_obj = loaded, filepath = path,
                            call_endpoint = endpoint,
                            call_training_endpoint = training_endpoint,
                            call_endpoint_fn = endpoint_fn,
                            call_training_endpoint_fn = training_fn,
                            trainable_weights = [], non_trainable_weights = [],
                            layer_built = False\<rparr>))\<lparr>layer_built := True\<rparr>"
    by blast
  let ?l0 = "\<lparr>reloaded_obj = loaded, filepath = path,
                            call_endpoint = endpoint,
                            call_training_endpoint = training_endpoint,
                            call_endpoint_fn = endpoint_fn,
                            call_training_endpoint_fn = training_fn,
                            trainable_weights = [], non_trainable_weights = [],
                            layer_built = False\<rparr>"
  have f: "call_endpoint_fn layer = endpoint_fn" "call_training_endpoint_fn layer = training_fn"
    "call_training_endpoint layer = training_endpoint"
    by (simp_all add: layer add_existing_weights_fields)
  show "resolve_endpoint loaded endpoint = Inr (call_endpoint_fn layer)"
    using r f by simp
  show "\<exists>f. call_training_endpoint_fn layer = Some f
             \<and> resolve_endpoint loaded (the training_endpoint) = Inr f"
    if "truthy_name training_endpoint"
    using t f that by simp
  show "call_training_endpoint_fn layer = None" if "\<not> truthy_name training_endpoint"
    using t f that by simp
  show "call_training_endpoint layer = training_endpoint" by (rule f(3))
  have i0: "weights_inv flag ?l0" by (simp add: weights_inv_def)
  note s1 = add_existing_weights_inv[OF i0, of tvs]
  note s2 = add_existing_weights_inv[OF s1[THEN conjunct1], of ntvs]
  have w: "trainable_weights layer
             = trainable_weights (add_existing_weights flag ntvs (add_existing_weights flag tvs ?l0))"
    "non_trainable_weights layer
             = non_trainable_weights (add_existing_weights flag ntvs
                 (add_existing_weights flag tvs ?l0))"
    by (simp_all add: layer)
  have inv: "weights_inv flag layer"
    using s2[THEN conjunct1] unfolding weights_inv_def w by simp
  have un: "set (trainable_weights layer) \<union> set (non_trainable_weights layer)
              = set tvs \<union> set ntvs"
    unfolding w using s1[THEN conjunct2] s2[THEN conjunct2] by simp
  have fns: "endpoint_fns layer
               = endpoint_fn # (case training_fn of None \<Rightarrow> [] | Some f \<Rightarrow> [f])"
    by (simp add: endpoint_fns_def f)
  show "\<exists>tvs ntvs. list_variables_used_by_fns gcf (endpoint_fns layer) = Inr (tvs, ntvs)
           \<and> weights_inv flag layer
           \<and> set (trainable_weights layer) \<union> set (non_trainable_weights layer)
               = set tvs \<union> set ntvs"
    using l inv un fns by auto
qed

lemma serve_artifact_resolve:
  "resolve_endpoint serve_artifact ''serve'' = Inr (Callable (RestoredFunction [serve_trace]))"
  "resolve_endpoint serve_artifact ''serving_default''
     = Inr (Callable (ConcreteFunction serve_trace))"
  "resolve_endpoint serve_artifact ''predict''
     = Inl (EndpointNotFound ''predict'' [''serve'', ''serving_default''])"
  by (simp_all add: resolve_endpoint_def serve_artifact_def signatures_of_def)

lemma serve_collect:
  "list_variables_used_by_fns trace_serve [Callable (RestoredFunction [serve_trace])]
     = Inr ([v1, v2], [v3])"
  "list_variables_used_by_fns trace_serve
     [Callable (RestoredFunction [serve_trace]), Callable (ConcreteFunction serve_trace)]
     = Inr ([v1, v2], [v3])"
  by (simp_all add: list_variables_used_by_fns_def empty_collector_def serve_trace_def
        v1_def v2_def v3_def)

lemma init_serve_layer:
  "TFSMLayer_init Tensorflow trace_serve trainable_flag serve_artifact ''artifact'' ''serve'' None
     = Inr serve_layer"
  by (simp add: TFSMLayer_init_unfold serve_artifact_resolve serve_collect serve_layer_def
        add_existing_weight_def track_variable_def trainable_flag_def v1_def v2_def v3_def)

lemma init_train_layer:
  "TFSMLayer_init Tensorflow trace_serve trainable_flag serve_artifact ''artifact'' ''serve''
     (Some ''serving_default'') = Inr train_layer"
  by (simp add: TFSMLayer_init_unfold serve_artifact_resolve serve_collect train_layer_def
        add_existing_weight_def track_variable_def trainable_flag_def v1_def v2_def v3_def)

section \<open>Claims about the collection\<close>

text \<open>
  C1 (as the code has it). Whenever every function yields its traces \<open>cs\<close>, the collection
  returns two sequences \<open>tvs\<close> and \<open>ntvs\<close> such that: neither repeats an identity; together
  they hold exactly the identities the traces reference; \<open>tvs\<close> lists, in first-encounter
  order, every identity some trace lists as trainable; \<open>ntvs\<close> lists, in first-encounter
  order, the identities met while no trace so far had listed them as trainable, which are
  exactly the identities whose first sighting is non-trainable; an identity whose first
  sighting is trainable is in \<open>tvs\<close> only; and no identity is in both sequences exactly
  when \<open>tvs\<close> holds only identities whose first sighting is trainable. The trainable loop
  tests the trainable identities only, so an identity first met as non-trainable and
  listed as trainable by a later trace lands in both sequences.
\<close>

theorem list_variables_used_by_fns_first_sighting:
  assumes "traces_of gcf fns = Inr cs"
  shows "\<exists>tvs ntvs. list_variables_used_by_fns gcf fns = Inr (tvs, ntvs)
           \<and> distinct tvs \<and> distinct ntvs
           \<and> set tvs \<union> set ntvs = referenced cs
           \<and> tvs = first_occurrences (concat (map trainable_variables cs))
           \<and> ntvs = first_occurrences (non_trainable_sightings {} cs)
           \<and> set ntvs = {v. map_of (sightings cs) v = Some False}
           \<and> {v. map_of (sightings cs) v = Some True} \<subseteq> set tvs - set ntvs
           \<and> (distinct (tvs @ ntvs) \<longleftrightarrow> set tvs = {v. map_of (sightings cs) v = Some True})"
proof -
  let ?tvs = "first_occurrences (concat (map trainable_variables cs))"
  let ?ntvs = "first_occurrences (non_trainable_sightings {} cs)"
  have res: "list_variables_used_by_fns gcf fns = Inr (?tvs, ?ntvs)"
    by (rule over_fns_empty_collector[OF assms])
  have nt: "set ?ntvs = {v. map_of (sightings cs) v = Some False}"
    by (auto simp: set_first_occurrences non_trainable_sightings_iff)
  have t: "{v. map_of (sightings cs) v = Some True} \<subseteq> set ?tvs - set ?ntvs"
    using first_sighting_trainable
    by (auto simp: set_first_occurrences non_trainable_sightings_iff)
  have sub: "set ?tvs \<subseteq> {v. map_of (sightings cs) v = Some True} \<union> set ?ntvs"
  proof
    fix v assume "v \<in> set ?tvs"
    then have "map_of (sightings cs) v \<noteq> None"
      by (simp add: set_first_occurrences listed_trainable_sighted del: set_concat)
    then obtain b where "map_of (sightings cs) v = Some b" by auto
    then show "v \<in> {v. map_of (sightings cs) v = Some True} \<union> set ?ntvs"
      by (cases b) (auto simp: nt)
  qed
  have un: "set ?tvs \<union> set ?ntvs = referenced cs"
  proof (rule set_eqI)
    fix v
    show "v \<in> set ?tvs \<union> set ?ntvs \<longleftrightarrow> v \<in> referenced cs"
    proof
      assume "v \<in> set ?tvs \<union> set ?ntvs"
      with sub have "map_of (sightings cs) v = Some True \<or> v \<in> set ?ntvs" by auto
      then show "v \<in> referenced cs" by (auto simp: nt referenced_iff_sighted)
    next
      assume "v \<in> referenced cs"
      then obtain b where "map_of (sightings cs) v = Some b"
        by (auto simp: referenced_iff_sighted)
      then show "v \<in> set ?tvs \<union> set ?ntvs" using t by (cases b) (auto simp: nt)
    qed
  qed
  have once: "distinct (?tvs @ ?ntvs) \<longleftrightarrow> set ?tvs = {v. map_of (sightings cs) v = Some True}"
  proof
    assume "distinct (?tvs @ ?ntvs)"
    then have "set ?tvs \<inter> set ?ntvs = {}" by simp
    with sub t show "set ?tvs = {v. map_of (sightings cs) v = Some True}" by blast
  next
    assume "set ?tvs = {v. map_of (sightings cs) v = Some True}"
    then have "set ?tvs \<inter> set ?ntvs = {}" by (auto simp: nt)
    then show "distinct (?tvs @ ?ntvs)" by (simp add: distinct_first_occurrences)
  qed
  show ?thesis
    using res nt t un once by (simp add: distinct_first_occurrences)
qed

theorem list_variables_used_by_fns_first_sighting_witness:
  "traces_of trace_serve
     [Callable (RestoredFunction [serve_trace, frozen_trace]),
      Callable (TfFunction (PyFunction 0) (Some [TensorSpec [None, Some 3] ''float32'']) True [])]
     = Inr [serve_trace, frozen_trace, serve_trace]
   \<and> list_variables_used_by_fns trace_serve
     [Callable (RestoredFunction [serve_trace, frozen_trace]),
      Callable (TfFunction (PyFunction 0) (Some [TensorSpec [None, Some 3] ''float32'']) True [])]
     = Inr ([v1, v2], [v3])
   \<and> distinct ([v1, v2] @ [v3])"
proof -
  let ?fns = "[Callable (RestoredFunction [serve_trace, frozen_trace]),
      Callable (TfFunction (PyFunction 0) (Some [TensorSpec [None, Some 3] ''float32'']) True [])]"
  have h: "traces_of trace_serve ?fns = Inr [serve_trace, frozen_trace, serve_trace]"
    by (simp add: trace_serve_def)
  from list_variables_used_by_fns_first_sighting[OF h]
  have "list_variables_used_by_fns trace_serve ?fns =
          Inr (first_occurrences (concat (map trainable_variables
                 [serve_trace, frozen_trace, serve_trace])),
               first_occurrences (non_trainable_sightings {}
                 [serve_trace, frozen_trace, serve_trace]))"
    by auto
  then have "list_variables_used_by_fns trace_serve ?fns = Inr ([v1, v2], [v3])"
    by (simp add: first_occurrences_def frozen_trace_def serve_trace_def v1_def v2_def v3_def)
  with h show ?thesis by (simp add: v1_def v2_def v3_def)
qed

text \<open>
  C1 as stated fails: a first trace references parameter 1 without listing it as
  trainable, a second trace lists it as trainable, and the collection returns it in both
  sequences, so it appears twice across the two sequences combined and its first
  classification has not won.
\<close>

theorem list_variables_used_by_fns_counterexample:
  "list_variables_used_by_fns trace_serve
     [Callable (ConcreteFunction \<lparr>trainable_variables = [], variables = [Variable 1]\<rparr>),
      Callable (ConcreteFunction \<lparr>trainable_variables = [Variable 1], variables = [Variable 1]\<rparr>)]
     = Inr ([Variable 1], [Variable 1])
   \<and> \<not> distinct ([Variable 1] @ [Variable 1])"
  by (simp add: list_variables_used_by_fns_def empty_collector_def)

section \<open>Claims about \<^verbatim>\<open>add_endpoint\<close>\<close>



text \<open>
  C6. A call of \<^verbatim>\<open>add_endpoint\<close> that raises leaves the archive as it was: the error is
  one of duplicate-endpoint-name, unspecialized-function and missing-signature, and the
  endpoint names, the endpoint signatures and the trackable's attributes are unchanged.
\<close>

theorem add_endpoint_atomic_on_failure:
  assumes "fst (add_endpoint name fn input_signature self) = Inl e"
  shows "e \<in> {DuplicateEndpointName name, UnspecializedFunction, MissingSignature}
         \<and> snd (add_endpoint name fn input_signature self) = self
         \<and> endpoint_names (snd (add_endpoint name fn input_signature self))
             = endpoint_names self
         \<and> endpoint_signatures (snd (add_endpoint name fn input_signature self))
             = endpoint_signatures self"
  using assms
  by (auto simp: add_endpoint_def setattr_trackable_def split: if_splits)

theorem add_endpoint_atomic_on_failure_witness:
  "fst (add_endpoint ''predict'' untraced_fn None serve_archive) = Inl UnspecializedFunction
   \<and> snd (add_endpoint ''predict'' untraced_fn None serve_archive) = serve_archive
   \<and> endpoint_names (snd (add_endpoint ''predict'' untraced_fn None serve_archive)) = [''serve'']
   \<and> endpoint_signatures (snd (add_endpoint ''predict'' untraced_fn None serve_archive))
       = [''serve'' \<mapsto> serve_signature]"
proof -
  have h: "fst (add_endpoint ''predict'' untraced_fn None serve_archive)
             = Inl UnspecializedFunction"
    by (simp add: add_endpoint_no_signature serve_archive_simps untraced_fn_def)
  from add_endpoint_atomic_on_failure[OF h] h show ?thesis
    by (simp add: serve_archive_simps)
qed

text \<open>
  C10 (as the code has it). An empty \<^verbatim>\<open>input_signature\<close> is treated exactly like an
  omitted one, and no signature is recorded. For a name not yet registered the call then
  raises missing-signature exactly when \<^verbatim>\<open>fn\<close> is no traceable callable, raises
  unspecialized-function exactly when \<^verbatim>\<open>fn\<close> is a traceable callable that holds no
  trace, and registers \<^verbatim>\<open>fn\<close> exactly when it is a traceable callable that holds a trace.
\<close>

theorem add_endpoint_empty_signature:
  "add_endpoint name fn (Some []) self = add_endpoint name fn None self
   \<and> endpoint_signatures (snd (add_endpoint name fn (Some []) self)) = endpoint_signatures self
   \<and> (name \<notin> set (endpoint_names self) \<longrightarrow>
        (fst (add_endpoint name fn (Some []) self) = Inl MissingSignature
           \<longleftrightarrow> \<not> is_generic_function fn)
        \<and> (fst (add_endpoint name fn (Some []) self) = Inl UnspecializedFunction
           \<longleftrightarrow> is_generic_function fn \<and> list_all_concrete_functions fn = [])
        \<and> (fst (add_endpoint name fn (Some []) self) = Inr ()
           \<longleftrightarrow> is_generic_function fn \<and> list_all_concrete_functions fn \<noteq> []))"
  by (simp add: add_endpoint_def setattr_trackable_def)

theorem add_endpoint_empty_signature_witness:
  "add_endpoint ''predict'' (PyFunction 0) (Some []) serve_archive
     = add_endpoint ''predict'' (PyFunction 0) None serve_archive
   \<and> fst (add_endpoint ''predict'' (PyFunction 0) (Some []) serve_archive) = Inl MissingSignature
   \<and> fst (add_endpoint ''predict'' traced_fn (Some []) serve_archive) = Inr ()
   \<and> endpoint_signatures (snd (add_endpoint ''predict'' traced_fn (Some []) serve_archive))
       = [''serve'' \<mapsto> serve_signature]"
proof -
  have fresh: "''predict'' \<notin> set (endpoint_names serve_archive)"
    by (simp add: serve_archive_simps)
  note plain = add_endpoint_empty_signature[where name="''predict''" and fn="PyFunction 0"
                 and self=serve_archive]
  note traced = add_endpoint_empty_signature[where name="''predict''" and fn=traced_fn
                 and self=serve_archive]
  have a: "add_endpoint ''predict'' (PyFunction 0) (Some []) serve_archive
             = add_endpoint ''predict'' (PyFunction 0) None serve_archive"
    using plain by (rule conjunct1)
  have b: "fst (add_endpoint ''predict'' (PyFunction 0) (Some []) serve_archive)
             = Inl MissingSignature"
    using plain[THEN conjunct2, THEN conjunct2] fresh by simp
  have c: "fst (add_endpoint ''predict'' traced_fn (Some []) serve_archive) = Inr ()"
    using traced[THEN conjunct2, THEN conjunct2] fresh by (simp add: traced_fn_def)
  have d: "endpoint_signatures (snd (add_endpoint ''predict'' traced_fn (Some []) serve_archive))
             = [''serve'' \<mapsto> serve_signature]"
    using traced[THEN conjunct2, THEN conjunct1] by (simp add: serve_archive_simps)
  from a b c d show ?thesis by (simp only:)
qed

text \<open>
  C10 as stated fails: with an empty signature and a \<^verbatim>\<open>tf.function\<close> that has never
  been called, which is not an already-traced callable, the call raises
  unspecialized-function and not missing-signature.
\<close>

theorem add_endpoint_empty_signature_counterexample:
  "fst (add_endpoint ''serve'' (TfFunction (PyFunction 0) None True []) (Some [])
          (new_archive TensorflowBackend)) = Inl UnspecializedFunction
   \<and> fst (add_endpoint ''serve'' (TfFunction (PyFunction 0) None True []) (Some [])
          (new_archive TensorflowBackend)) \<noteq> Inl MissingSignature
   \<and> list_all_concrete_functions (TfFunction (PyFunction 0) None True []) = []"
  by (simp add: add_endpoint_def new_archive_def)

section \<open>Claims about \<^verbatim>\<open>track\<close>\<close>

text \<open>
  C5. \<^verbatim>\<open>track\<close> raises invalid-resource-type for every resource that lacks the trackable
  capability of the runtime in use, and leaves the archive as it was. The test of the
  built flag comes second: for every layer that has the capability and is not built it
  raises not-built, again leaving the archive as it was. A built layer with the
  capability is never rejected: the outcome is neither of the two errors, the layer is
  appended to the tracked roots, and the call succeeds whenever the three parameter
  attributes of the trackable are bound to lists (as they are from \<^verbatim>\<open>__init__\<close> on).
\<close>

theorem track_rejections:
  "(\<not> trackable_capability self resource \<longrightarrow>
      track resource self = (Inl InvalidResourceType, self))
   \<and> (trackable_capability self resource \<and> is_layer resource \<and> \<not> built resource \<longrightarrow>
      track resource self = (Inl NotBuilt, self))
   \<and> (trackable_capability self resource \<and> is_layer resource \<and> built resource \<longrightarrow>
      fst (track resource self) \<noteq> Inl InvalidResourceType
      \<and> fst (track resource self) \<noteq> Inl NotBuilt
      \<and> tracked (snd (track resource self))
          = Some ((case tracked self of None \<Rightarrow> [] | Some rs \<Rightarrow> rs) @ [resource])
      \<and> (variable_lists_bound self \<longrightarrow> fst (track resource self) = Inr ()))"
proof (intro conjI impI)
  assume "\<not> trackable_capability self resource"
  then show "track resource self = (Inl InvalidResourceType, self)"
    by (cases "backend_of self") (simp_all add: track_def trackable_capability_def)
next
  assume "trackable_capability self resource \<and> is_layer resource \<and> \<not> built resource"
  then show "track resource self = (Inl NotBuilt, self)"
    by (cases "backend_of self") (simp_all add: track_def trackable_capability_def)
next
  assume h: "trackable_capability self resource \<and> is_layer resource \<and> built resource"
  let ?self1 = "self\<lparr>tracked :=
                    Some ((case tracked self of None \<Rightarrow> [] | Some rs \<Rightarrow> rs) @ [resource])\<rparr>"
  have t: "track resource self =
             (if backend_of self = JaxBackend then track_jax resource ?self1
              else track_tf resource ?self1)"
    using h track_layer[of self resource] by (simp add: Let_def)
  obtain r self' where rs: "track resource self = (r, self')" by (cases "track resource self")
  then have c: "r \<noteq> Inl InvalidResourceType \<and> r \<noteq> Inl NotBuilt \<and> tracked self' = tracked ?self1"
    using t track_jax_cases[of resource ?self1 r self'] track_tf_cases[of resource ?self1 r self']
    by (simp split: if_splits)
  from c rs show "fst (track resource self) \<noteq> Inl InvalidResourceType" by simp
  from c rs show "fst (track resource self) \<noteq> Inl NotBuilt" by simp
  from c rs show "tracked (snd (track resource self))
          = Some ((case tracked self of None \<Rightarrow> [] | Some rs \<Rightarrow> rs) @ [resource])" by simp
  assume "variable_lists_bound self"
  then obtain xs ys zs where l:
    "tf_trackable ?self1 ''variables'' = Some (PyList xs)"
    "tf_trackable ?self1 ''trainable_variables'' = Some (PyList ys)"
    "tf_trackable ?self1 ''non_trainable_variables'' = Some (PyList zs)"
    unfolding variable_lists_bound_def
    by (auto elim!: is_py_list.elims)
  show "fst (track resource self) = Inr ()"
    unfolding t
    by (simp add: track_tf_lists[OF l] track_jax_lists[OF l(2,3)] Let_def)
qed

theorem track_rejections_witness:
  "track (dense_layer\<lparr>is_tf_trackable := False\<rparr>) (new_archive TensorflowBackend)
     = (Inl InvalidResourceType, new_archive TensorflowBackend)
   \<and> track (dense_layer\<lparr>built := False\<rparr>) (new_archive JaxBackend)
     = (Inl NotBuilt, new_archive JaxBackend)
   \<and> fst (track dense_layer (new_archive TensorflowBackend)) = Inr ()
   \<and> tracked (snd (track dense_layer (new_archive TensorflowBackend))) = Some [dense_layer]"
proof -
  have a: "\<not> trackable_capability (new_archive TensorflowBackend)
               (dense_layer\<lparr>is_tf_trackable := False\<rparr>)"
    by (simp add: trackable_capability_def new_archive_simps)
  have b: "trackable_capability (new_archive JaxBackend) (dense_layer\<lparr>built := False\<rparr>)
           \<and> is_layer (dense_layer\<lparr>built := False\<rparr>) \<and> \<not> built (dense_layer\<lparr>built := False\<rparr>)"
    by (simp add: trackable_capability_def new_archive_simps dense_layer_def)
  have c: "trackable_capability (new_archive TensorflowBackend) dense_layer
           \<and> is_layer dense_layer \<and> built dense_layer"
    by (simp add: trackable_capability_def new_archive_simps dense_layer_def)
  have d: "variable_lists_bound (new_archive TensorflowBackend)"
    by (simp add: variable_lists_bound_def new_archive_def)
  from track_rejections[of "new_archive TensorflowBackend" "dense_layer\<lparr>is_tf_trackable := False\<rparr>"]
       track_rejections[of "new_archive JaxBackend" "dense_layer\<lparr>built := False\<rparr>"]
       track_rejections[of "new_archive TensorflowBackend" dense_layer]
       a b c d
  show ?thesis by (simp add: new_archive_simps)
qed

text \<open>
  C2 (as the code has it). \<^verbatim>\<open>track\<close> appends on every call and never tests for
  membership. Let \<open>r\<close> be a built layer with the trackable capability, tracked twice on an
  archive whose three parameter attributes are the lists \<open>xs\<close>, \<open>ys\<close> and \<open>zs\<close>; both
  calls succeed. Under TensorFlow the three sequences seen right after the second call
  are \<open>xs\<close>, \<open>ys\<close> and \<open>zs\<close> each followed by two copies of the matching sequence of \<open>r\<close>,
  so every parameter of \<open>r\<close> is there twice. Under JAX each call appends newly created
  mirror parameters, one for each trainable and each non-trainable parameter of \<open>r\<close>, so
  the parameters of \<open>r\<close> are mirrored twice under four runs of new identities, and the
  native lists hold the parameters of \<open>r\<close> twice.
\<close>

theorem track_twice_appends_twice:
  assumes "trackable_capability self r" and "is_layer r" and "built r"
    and "tf_trackable self ''variables'' = Some (PyList xs)"
    and "tf_trackable self ''trainable_variables'' = Some (PyList ys)"
    and "tf_trackable self ''non_trainable_variables'' = Some (PyList zs)"
  shows "fst (track r self) = Inr () \<and> fst (track r (snd (track r self))) = Inr ()
    \<and> (backend_of self = TensorflowBackend \<longrightarrow>
         archive_variables (snd (track r (snd (track r self))))
           = Inr (PyList (xs @ map Var (layer_variables r) @ map Var (layer_variables r)))
         \<and> archive_trainable_variables (snd (track r (snd (track r self))))
           = Inr (PyList (ys @ map Var (layer_trainable_variables r)
                             @ map Var (layer_trainable_variables r)))
         \<and> archive_non_trainable_variables (snd (track r (snd (track r self))))
           = Inr (PyList (zs @ map Var (layer_non_trainable_variables r)
                             @ map Var (layer_non_trainable_variables r))))
    \<and> (backend_of self = JaxBackend \<longrightarrow>
         (let n = next_id self;
              kt = length (layer_trainable_variables r);
              kn = length (layer_non_trainable_variables r);
              ts = ys @ map Var (map Variable ([n ..< n + kt]
                                   @ [n + kt + kn ..< n + kt + kn + kt]));
              ns = zs @ map Var (map Variable ([n + kt ..< n + kt + kn]
                                   @ [n + kt + kn + kt ..< n + kt + kn + kt + kn]))
          in archive_trainable_variables (snd (track r (snd (track r self)))) = Inr (PyList ts)
             \<and> archive_non_trainable_variables (snd (track r (snd (track r self))))
                 = Inr (PyList ns)
             \<and> archive_variables (snd (track r (snd (track r self)))) = Inr (PyList (ts @ ns))
             \<and> backend_trainable_variables (snd (track r (snd (track r self))))
                 = backend_trainable_variables self @ layer_trainable_variables r
                     @ layer_trainable_variables r
             \<and> backend_non_trainable_variables (snd (track r (snd (track r self))))
                 = backend_non_trainable_variables self @ layer_non_trainable_variables r
                     @ layer_non_trainable_variables r))"
proof (cases "backend_of self")
  case TensorflowBackend
  let ?s0 = "self\<lparr>tracked := Some ((case tracked self of None \<Rightarrow> [] | Some rs \<Rightarrow> rs) @ [r])\<rparr>"
  have l0: "tf_trackable ?s0 ''variables'' = Some (PyList xs)"
    "tf_trackable ?s0 ''trainable_variables'' = Some (PyList ys)"
    "tf_trackable ?s0 ''non_trainable_variables'' = Some (PyList zs)"
    using assms(4-6) by simp_all
  have one: "track r self = track_tf r ?s0"
    using track_layer[OF assms(1-3)] TensorflowBackend by (simp add: Let_def)
  define s1 where "s1 = snd (track r self)"
  have s1: "track r self = (Inr (), s1)"
    unfolding s1_def one by (simp add: track_tf_lists[OF l0])
  have b1: "backend_of s1 = TensorflowBackend" "trackable_capability s1 r"
    using TensorflowBackend assms(1)
    unfolding s1_def one by (simp_all add: track_tf_lists[OF l0] trackable_capability_def)
  let ?s2 = "s1\<lparr>tracked := Some ((case tracked s1 of None \<Rightarrow> [] | Some rs \<Rightarrow> rs) @ [r])\<rparr>"
  have l1: "tf_trackable ?s2 ''variables'' = Some (PyList (xs @ map Var (layer_variables r)))"
    "tf_trackable ?s2 ''trainable_variables''
       = Some (PyList (ys @ map Var (layer_trainable_variables r)))"
    "tf_trackable ?s2 ''non_trainable_variables''
       = Some (PyList (zs @ map Var (layer_non_trainable_variables r)))"
    unfolding s1_def one by (simp_all add: track_tf_lists[OF l0])
  have two: "track r s1 = track_tf r ?s2"
    using track_layer[OF b1(2) assms(2,3)] b1(1) by (simp add: Let_def)
  show ?thesis
    using TensorflowBackend s1
    by (simp add: two track_tf_lists[OF l1] archive_variables_def
          archive_trainable_variables_def archive_non_trainable_variables_def
          getattr_trackable_def)
next
  case JaxBackend
  let ?s0 = "self\<lparr>tracked := Some ((case tracked self of None \<Rightarrow> [] | Some rs \<Rightarrow> rs) @ [r])\<rparr>"
  have l0: "tf_trackable ?s0 ''trainable_variables'' = Some (PyList ys)"
    "tf_trackable ?s0 ''non_trainable_variables'' = Some (PyList zs)"
    using assms(5,6) by simp_all
  have one: "track r self = track_jax r ?s0"
    using track_layer[OF assms(1-3)] JaxBackend by (simp add: Let_def)
  define s1 where "s1 = snd (track r self)"
  have s1: "track r self = (Inr (), s1)"
    unfolding s1_def one by (simp add: track_jax_lists[OF l0] Let_def)
  have b1: "backend_of s1 = JaxBackend" "trackable_capability s1 r"
    using JaxBackend assms(1)
    unfolding s1_def one
    by (simp_all add: track_jax_lists[OF l0] trackable_capability_def Let_def)
  let ?s2 = "s1\<lparr>tracked := Some ((case tracked s1 of None \<Rightarrow> [] | Some rs \<Rightarrow> rs) @ [r])\<rparr>"
  let ?n = "next_id self"
  let ?kt = "length (layer_trainable_variables r)"
  let ?kn = "length (layer_non_trainable_variables r)"
  have l1: "tf_trackable ?s2 ''trainable_variables''
       = Some (PyList (ys @ map Var (map Variable [?n ..< ?n + ?kt])))"
    "tf_trackable ?s2 ''non_trainable_variables''
       = Some (PyList (zs @ map Var (map Variable [?n + ?kt ..< ?n + ?kt + ?kn])))"
    unfolding s1_def one by (simp_all add: track_jax_lists[OF l0] Let_def)
  have f1: "next_id ?s2 = ?n + ?kt + ?kn"
    "backend_trainable_variables ?s2 = backend_trainable_variables self @ layer_trainable_variables r"
    "backend_non_trainable_variables ?s2
       = backend_non_trainable_variables self @ layer_non_trainable_variables r"
    unfolding s1_def one by (simp_all add: track_jax_lists[OF l0] Let_def)
  have two: "track r s1 = track_jax r ?s2"
    using track_layer[OF b1(2) assms(2,3)] b1(1) by (simp add: Let_def)
  show ?thesis
    using JaxBackend s1
    by (simp add: two track_jax_lists[OF l1] f1 Let_def archive_variables_def
          archive_trainable_variables_def archive_non_trainable_variables_def
          getattr_trackable_def)
qed

theorem track_twice_appends_twice_witness:
  "archive_trainable_variables (snd (track dense_layer (snd (track dense_layer
       (new_archive TensorflowBackend)))))
     = Inr (PyList [Var v1, Var v2, Var v1, Var v2])
   \<and> archive_non_trainable_variables (snd (track dense_layer (snd (track dense_layer
       (new_archive TensorflowBackend)))))
     = Inr (PyList [Var v3, Var v3])
   \<and> archive_trainable_variables (snd (track dense_layer (snd (track dense_layer
       (new_archive JaxBackend)))))
     = Inr (PyList [Var (Variable 100), Var (Variable 101), Var (Variable 103),
                    Var (Variable 104)])
   \<and> archive_non_trainable_variables (snd (track dense_layer (snd (track dense_layer
       (new_archive JaxBackend)))))
     = Inr (PyList [Var (Variable 102), Var (Variable 105)])
   \<and> backend_trainable_variables (snd (track dense_layer (snd (track dense_layer
       (new_archive JaxBackend))))) = [v1, v2, v1, v2]"
proof -
  have cap: "trackable_capability (new_archive b) dense_layer" for b
    by (cases b) (simp_all add: trackable_capability_def new_archive_simps dense_layer_simps)
  have r100: "[100 ..< 102] = [100, 101::nat]" "[103 ..< 105] = [103, 104::nat]"
    "[102 ..< 103] = [102::nat]" "[105 ..< 106] = [105::nat]"
    by (simp_all add: upt_rec)
  note tf = track_twice_appends_twice[OF cap dense_layer_simps(3,4) new_archive_attributes,
              of TensorflowBackend]
  note jax = track_twice_appends_twice[OF cap dense_layer_simps(3,4) new_archive_attributes,
              of JaxBackend]
  have a: "archive_trainable_variables (snd (track dense_layer (snd (track dense_layer
       (new_archive TensorflowBackend)))))
     = Inr (PyList [Var v1, Var v2, Var v1, Var v2])
   \<and> archive_non_trainable_variables (snd (track dense_layer (snd (track dense_layer
       (new_archive TensorflowBackend)))))
     = Inr (PyList [Var v3, Var v3])"
    using tf by (simp add: new_archive_simps dense_layer_simps)
  have b: "archive_trainable_variables (snd (track dense_layer (snd (track dense_layer
       (new_archive JaxBackend)))))
     = Inr (PyList [Var (Variable 100), Var (Variable 101), Var (Variable 103),
                    Var (Variable 104)])
   \<and> archive_non_trainable_variables (snd (track dense_layer (snd (track dense_layer
       (new_archive JaxBackend)))))
     = Inr (PyList [Var (Variable 102), Var (Variable 105)])
   \<and> backend_trainable_variables (snd (track dense_layer (snd (track dense_layer
       (new_archive JaxBackend))))) = [v1, v2, v1, v2]"
    using jax by (simp add: new_archive_simps dense_layer_simps Let_def r100 new_archive_def)
  from a b show ?thesis by (simp only:)
qed

text \<open>
  C2 as stated fails: under TensorFlow, tracking a built layer with three parameters
  twice on a new archive leaves every one of them twice in the \<^verbatim>\<open>variables\<close> sequence
  seen right after the second call.
\<close>

theorem track_twice_counterexample:
  "archive_variables (snd (track dense_layer (snd (track dense_layer
       (new_archive TensorflowBackend)))))
     = Inr (PyList [Var (Variable 1), Var (Variable 2), Var (Variable 3),
                    Var (Variable 1), Var (Variable 2), Var (Variable 3)])
   \<and> \<not> distinct [Var (Variable 1), Var (Variable 2), Var (Variable 3),
                  Var (Variable 1), Var (Variable 2), Var (Variable 3)]
   \<and> is_layer dense_layer \<and> built dense_layer \<and> is_tf_trackable dense_layer"
  using track_dense_layer_twice by (simp add: v1_def v2_def v3_def dense_layer_simps)

section \<open>The signature map of \<^verbatim>\<open>write_out\<close>\<close>

text \<open>
  What \<^verbatim>\<open>write_out\<close> does, read on the archive as the call leaves it: it fails with the
  no-endpoints error exactly when no endpoint is registered; the keys of a signature map
  it hands over are the registered names and \<^verbatim>\<open>"serving_default"\<close>, and each is bound to
  what \<^verbatim>\<open>_get_concrete_fn\<close> yields after \<^verbatim>\<open>_filter_and_track_resources\<close> has run.
\<close>

lemma write_out_post:
  "(fst (write_out gcf self) = Inl NoEndpoints \<longleftrightarrow> endpoint_names self = [])
   \<and> (endpoint_names self = [] \<longrightarrow> snd (write_out gcf self) = self)
   \<and> endpoint_names (snd (write_out gcf self)) = endpoint_names self
   \<and> (\<forall>name. name \<noteq> ''_all_variables'' \<and> name \<noteq> ''_misc_assets'' \<longrightarrow>
         get_concrete_fn (snd (write_out gcf self)) name = get_concrete_fn self name)
   \<and> (\<forall>signatures. fst (write_out gcf self) = Inr signatures \<longrightarrow>
         dom signatures = insert ''serving_default'' (set (endpoint_names self))
         \<and> (\<forall>name \<in> set (endpoint_names self).
               get_concrete_fn (snd (write_out gcf self)) name = Inr (the (signatures name)))
         \<and> (''serving_default'' \<notin> set (endpoint_names self) \<longrightarrow>
               get_concrete_fn (snd (write_out gcf self)) (hd (endpoint_names self))
                 = Inr (the (signatures ''serving_default''))))"
proof -
  obtain r self1 where ft:
    "(if backend_of self = TensorflowBackend then filter_and_track_resources gcf self
      else (Inr (), self)) = (r, self1)"
    by (cases "if backend_of self = TensorflowBackend then filter_and_track_resources gcf self
      else (Inr (), self)")
  have frame: "r \<noteq> Inl NoEndpoints" "endpoint_names self1 = endpoint_names self"
    "endpoint_signatures self1 = endpoint_signatures self"
    "\<And>name. name \<noteq> ''_all_variables'' \<Longrightarrow> name \<noteq> ''_misc_assets''
         \<Longrightarrow> tf_trackable self1 name = tf_trackable self name"
    using ft filter_and_track_resources_frame[of gcf self r self1]
    by (auto split: if_splits)
  have gc: "get_concrete_fn self1 name = get_concrete_fn self name"
    if "name \<noteq> ''_all_variables''" "name \<noteq> ''_misc_assets''" for name
    using that frame by (intro get_concrete_fn_cong) simp_all
  have post: "snd (write_out gcf self) = (if endpoint_names self = [] then self else self1)"
    using ft frame(2)
    by (simp add: write_out_def split: sum.splits list.splits)
  show ?thesis
  proof (cases "endpoint_names self = []")
    case True
    then show ?thesis by (simp add: write_out_def)
  next
    case False
    have none: "fst (write_out gcf self) \<noteq> Inl NoEndpoints"
      using False ft frame(1,2)
      by (auto simp: write_out_def split: sum.splits list.splits
          dest: fill_signatures_error get_concrete_fn_error)
    have sigs: "dom signatures = insert ''serving_default'' (set (endpoint_names self))
         \<and> (\<forall>name \<in> set (endpoint_names self).
               get_concrete_fn self1 name = Inr (the (signatures name)))
         \<and> (''serving_default'' \<notin> set (endpoint_names self) \<longrightarrow>
               get_concrete_fn self1 (hd (endpoint_names self))
                 = Inr (the (signatures ''serving_default'')))"
      if w: "fst (write_out gcf self) = Inr signatures" for signatures
    proof -
      from w False ft obtain m where
        m: "fill_signatures self1 (endpoint_names self) Map.empty = Inr m"
        by (auto simp: write_out_def frame(2) split: sum.splits list.splits if_splits)
      note fr = fill_signatures_result[OF m]
      have mdom: "dom m = set (endpoint_names self)"
      proof (rule set_eqI)
        fix name
        from fr[of name] show "name \<in> dom m \<longleftrightarrow> name \<in> set (endpoint_names self)"
          by (auto split: if_splits sum.splits)
      qed
      have mval: "get_concrete_fn self1 name = Inr (the (m name))"
        if "name \<in> set (endpoint_names self)" for name
        using fr[of name] that by (auto split: sum.splits)
      show ?thesis
      proof (cases "''serving_default'' \<in> set (endpoint_names self)")
        case True
        with w False ft m have "signatures = m"
          by (auto simp: write_out_def frame(2) split: sum.splits list.splits)
        with True mdom mval show ?thesis by auto
      next
        case nd: False
        obtain first rest where names: "endpoint_names self = first # rest"
          using False by (cases "endpoint_names self") auto
        with w nd ft m obtain f where f: "get_concrete_fn self1 first = Inr f"
          and s: "signatures = m(''serving_default'' \<mapsto> f)"
          by (auto simp: write_out_def frame(2) split: sum.splits)
        from s mdom have "dom signatures = insert ''serving_default'' (set (endpoint_names self))"
          by auto
        moreover have "\<forall>name \<in> set (endpoint_names self).
               get_concrete_fn self1 name = Inr (the (signatures name))"
          using mval nd s by auto
        moreover have "get_concrete_fn self1 (hd (endpoint_names self))
                 = Inr (the (signatures ''serving_default''))"
          using f s names by simp
        ultimately show ?thesis by simp
      qed
    qed
    have p: "snd (write_out gcf self) = self1"
      using False by (simp add: post)
    show ?thesis
      unfolding p
    proof (intro conjI allI impI)
      show "(fst (write_out gcf self) = Inl NoEndpoints) = (endpoint_names self = [])"
        using False none by simp
      show "self1 = self" if "endpoint_names self = []"
        using that False by simp
      show "endpoint_names self1 = endpoint_names self"
        by (rule frame(2))
      show "get_concrete_fn self1 name = get_concrete_fn self name"
        if "name \<noteq> ''_all_variables'' \<and> name \<noteq> ''_misc_assets''" for name
        using that gc by simp
      show "dom signatures = insert ''serving_default'' (set (endpoint_names self))"
        if "fst (write_out gcf self) = Inr signatures" for signatures
        using sigs[OF that] by (rule conjunct1)
      show "\<forall>name \<in> set (endpoint_names self).
               get_concrete_fn self1 name = Inr (the (signatures name))"
        if "fst (write_out gcf self) = Inr signatures" for signatures
        using sigs[OF that] by blast
      show "get_concrete_fn self1 (hd (endpoint_names self))
                 = Inr (the (signatures ''serving_default''))"
        if "fst (write_out gcf self) = Inr signatures"
          and "''serving_default'' \<notin> set (endpoint_names self)" for signatures
        using sigs[OF that(1)] that(2) by blast
    qed
  qed
qed

lemma write_out_jax_state:
  "backend_of self = JaxBackend \<Longrightarrow> snd (write_out gcf self) = self"
  by (simp add: write_out_def split: sum.splits list.splits prod.splits)

lemma trackable_children_value:
  "trackable_children f = Inr ts \<Longrightarrow>
   \<exists>g. f = Callable g \<and> is_generic_function g \<and> list_all_concrete_functions g = ts"
  by (erule trackable_children.elims) simp_all

lemma get_concrete_fn_signature:
  "get_concrete_fn self name = Inr v \<Longrightarrow> name \<in> dom (endpoint_signatures self) \<Longrightarrow>
   tf_trackable self name = Some v"
  by (cases "tf_trackable self name") (simp_all add: get_concrete_fn_def getattr_trackable_def)

lemma get_concrete_fn_trace:
  assumes "get_concrete_fn self name = Inr v" and "name \<notin> dom (endpoint_signatures self)"
  shows "\<exists>g c cs. tf_trackable self name = Some (Callable g) \<and> is_generic_function g
            \<and> list_all_concrete_functions g = c # cs \<and> v = Callable (ConcreteFunction c)"
proof (cases "tf_trackable self name")
  case None
  with assms show ?thesis by (simp add: get_concrete_fn_def getattr_trackable_def)
next
  case (Some f)
  show ?thesis
  proof (cases "trackable_children f")
    case (Inl e)
    with assms Some show ?thesis by (simp add: get_concrete_fn_def getattr_trackable_def)
  next
    case (Inr ts)
    from trackable_children_value[OF Inr] obtain g where
      g: "f = Callable g" "is_generic_function g" "list_all_concrete_functions g = ts"
      by blast
    show ?thesis
    proof (cases ts)
      case Nil
      with assms Some Inr show ?thesis by (simp add: get_concrete_fn_def getattr_trackable_def)
    next
      case (Cons c cs)
      with assms Some Inr have "v = Callable (ConcreteFunction c)"
        by (simp add: get_concrete_fn_def getattr_trackable_def)
      with Some g Cons show ?thesis by simp
    qed
  qed
qed

text \<open>
  The values of the map in terms of the archive before the call. Under JAX, and under
  TensorFlow for every name but \<^verbatim>\<open>_all_variables\<close> and \<^verbatim>\<open>_misc_assets\<close>, an endpoint
  registered with a signature is bound to the function stored for it, and an endpoint
  registered without one is bound to the first trace of the function stored for it.
  Without an endpoint named \<^verbatim>\<open>"serving_default"\<close>, that key carries the entry of the
  endpoint registered first.
\<close>

lemma write_out_signature_map:
  assumes w: "fst (write_out gcf self) = Inr signatures"
    and n: "name \<in> set (endpoint_names self)"
    and free: "backend_of self = JaxBackend
               \<or> (name \<noteq> ''_all_variables'' \<and> name \<noteq> ''_misc_assets'')"
  shows "dom signatures = insert ''serving_default'' (set (endpoint_names self))"
    and "name \<in> dom (endpoint_signatures self) \<Longrightarrow> signatures name = tf_trackable self name"
    and "name \<notin> dom (endpoint_signatures self) \<Longrightarrow>
         \<exists>g c cs. tf_trackable self name = Some (Callable g) \<and> is_generic_function g
            \<and> list_all_concrete_functions g = c # cs
            \<and> signatures name = Some (Callable (ConcreteFunction c))"
    and "''serving_default'' \<notin> set (endpoint_names self) \<Longrightarrow>
         signatures ''serving_default'' = signatures (hd (endpoint_names self))"
proof -
  note p = write_out_post[of gcf self]
  note p4 = p[THEN conjunct2, THEN conjunct2, THEN conjunct2, THEN conjunct1]
  note p5 = p[THEN conjunct2, THEN conjunct2, THEN conjunct2, THEN conjunct2,
              THEN spec, THEN mp, OF w]
  note d = p5[THEN conjunct1]
  note b = p5[THEN conjunct2, THEN conjunct1]
  note sd = p5[THEN conjunct2, THEN conjunct2]
  show "dom signatures = insert ''serving_default'' (set (endpoint_names self))" by (rule d)
  have same: "get_concrete_fn (snd (write_out gcf self)) name = get_concrete_fn self name"
  proof (cases "backend_of self = JaxBackend")
    case True
    then show ?thesis by (simp add: write_out_jax_state)
  next
    case False
    with free have "name \<noteq> ''_all_variables'' \<and> name \<noteq> ''_misc_assets''" by simp
    with p4[THEN spec, of name] show ?thesis by (rule mp)
  qed
  from b n have "get_concrete_fn (snd (write_out gcf self)) name = Inr (the (signatures name))"
    by (rule bspec)
  with same have g: "get_concrete_fn self name = Inr (the (signatures name))" by simp
  from d n have "name \<in> dom signatures" by simp
  then obtain v where v: "signatures name = Some v" by (auto simp: dom_def)
  show "signatures name = tf_trackable self name" if "name \<in> dom (endpoint_signatures self)"
    using get_concrete_fn_signature[OF g that] v by simp
  show "\<exists>g c cs. tf_trackable self name = Some (Callable g) \<and> is_generic_function g
            \<and> list_all_concrete_functions g = c # cs
            \<and> signatures name = Some (Callable (ConcreteFunction c))"
    if "name \<notin> dom (endpoint_signatures self)"
    using get_concrete_fn_trace[OF g that] v by simp
  show "signatures ''serving_default'' = signatures (hd (endpoint_names self))"
    if nd: "''serving_default'' \<notin> set (endpoint_names self)"
  proof -
    have h: "hd (endpoint_names self) \<in> set (endpoint_names self)"
      using n by (cases "endpoint_names self") simp_all
    from sd nd have "get_concrete_fn (snd (write_out gcf self)) (hd (endpoint_names self))
        = Inr (the (signatures ''serving_default''))" by (rule mp)
    moreover from b h have "get_concrete_fn (snd (write_out gcf self)) (hd (endpoint_names self))
        = Inr (the (signatures (hd (endpoint_names self))))" by (rule bspec)
    ultimately have e: "the (signatures ''serving_default'')
        = the (signatures (hd (endpoint_names self)))" by simp
    from d h have "hd (endpoint_names self) \<in> dom signatures" by simp
    then obtain a where a: "signatures (hd (endpoint_names self)) = Some a"
      by (auto simp: dom_def)
    from d have "''serving_default'' \<in> dom signatures" by simp
    then obtain c where c: "signatures ''serving_default'' = Some c" by (auto simp: dom_def)
    from e a c show ?thesis by simp
  qed
qed

lemma write_out_serve_archive:
  "fst (write_out trace_serve serve_archive)
     = Inr [''serve'' \<mapsto> Callable (TfFunction (PyFunction 0) (Some serve_signature) True []),
            ''serving_default'' \<mapsto>
               Callable (TfFunction (PyFunction 0) (Some serve_signature) True [])]"
proof -
  let ?f = "Callable (TfFunction (PyFunction 0) (Some serve_signature) True [])"
  have g: "get_concrete_fn serve_archive ''serve'' = Inr ?f"
    by (simp add: get_concrete_fn_def getattr_trackable_def serve_archive_def)
  have l: "list_variables_used_by_fns trace_serve [?f] = Inr ([v1, v2], [v3])"
    by (simp add: list_variables_used_by_fns_def empty_collector_def trace_serve_def
          serve_trace_def v1_def v2_def v3_def)
  have f: "filter_and_track_resources trace_serve serve_archive
             = (Inr (), setattr_trackable ''_misc_assets'' (PyList [])
                  (setattr_trackable ''_all_variables'' (PyList [Var v1, Var v2, Var v3])
                     serve_archive))"
    by (simp add: filter_and_track_resources_def serve_archive_simps g l Let_def
          setattr_trackable_simps)
  have g1: "get_concrete_fn (setattr_trackable ''_misc_assets'' (PyList [])
                  (setattr_trackable ''_all_variables'' (PyList [Var v1, Var v2, Var v3])
                     serve_archive)) ''serve'' = Inr ?f"
    by (simp add: get_concrete_fn_def getattr_trackable_def serve_archive_simps
          setattr_trackable_simps)
       (simp add: serve_archive_def)
  show ?thesis
    by (simp add: write_out_def serve_archive_simps f g1 setattr_trackable_simps)
qed

lemma write_out_two_endpoint_archive:
  "fst (write_out gcf two_endpoint_archive)
     = Inr [''predict'' \<mapsto> Callable (ConcreteFunction serve_trace),
            ''serving_default'' \<mapsto>
               Callable (TfFunction (StatefulFn (PyFunction 0) 1)
                           (Some serve_signature) False [])]"
proof -
  have n: "endpoint_names two_endpoint_archive = [''predict'', ''serving_default'']"
    "backend_of two_endpoint_archive = JaxBackend"
    by (simp_all add: two_endpoint_archive_def)
  have g: "get_concrete_fn two_endpoint_archive ''predict''
             = Inr (Callable (ConcreteFunction serve_trace))"
    "get_concrete_fn two_endpoint_archive ''serving_default''
             = Inr (Callable (TfFunction (StatefulFn (PyFunction 0) 1)
                                (Some serve_signature) False []))"
    by (simp_all add: get_concrete_fn_def getattr_trackable_def two_endpoint_archive_def
          traced_fn_def)
  show ?thesis by (simp add: write_out_def n g)
qed

section \<open>Claim about \<^verbatim>\<open>write_out\<close>\<close>

text \<open>
  C3 at the input where the code departs from it. The endpoints are stored with
  \<^verbatim>\<open>setattr\<close> on the trackable under the user's name, and under TensorFlow
  \<^verbatim>\<open>write_out\<close> first runs \<^verbatim>\<open>_filter_and_track_resources\<close>, which binds the attributes
  \<^verbatim>\<open>_all_variables\<close> and \<^verbatim>\<open>_misc_assets\<close> of the same trackable, and only then reads the
  endpoints. So after \<^verbatim>\<open>add_endpoint("_all_variables", fn, serve_signature)\<close> on a new
  archive, which succeeds and stores the frozen function as the endpoint's concrete
  trace, \<^verbatim>\<open>write_out\<close> hands over a signature map in which both \<^verbatim>\<open>"_all_variables"\<close> and
  \<^verbatim>\<open>"serving_default"\<close> are bound to the list of collected parameters, not to the
  first-registered endpoint's concrete trace as the claim (and the docstring of
  \<^verbatim>\<open>write_out\<close>) has it.
\<close>

theorem write_out_reserved_name:
  "add_endpoint ''_all_variables'' (PyFunction 0) (Some serve_signature)
      (new_archive TensorflowBackend) = (Inr (), reserved_archive)
   \<and> get_concrete_fn reserved_archive ''_all_variables''
     = Inr (Callable (TfFunction (PyFunction 0) (Some serve_signature) True []))
   \<and> fst (write_out trace_serve reserved_archive)
     = Inr [''_all_variables'' \<mapsto> PyList [Var (Variable 1), Var (Variable 2), Var (Variable 3)],
            ''serving_default'' \<mapsto> PyList [Var (Variable 1), Var (Variable 2), Var (Variable 3)]]
   \<and> PyList [Var (Variable 1), Var (Variable 2), Var (Variable 3)]
     \<noteq> Callable (TfFunction (PyFunction 0) (Some serve_signature) True [])"
proof -
  let ?f = "Callable (TfFunction (PyFunction 0) (Some serve_signature) True [])"
  let ?vs = "PyList [Var v1, Var v2, Var v3]"
  have a: "add_endpoint ''_all_variables'' (PyFunction 0) (Some serve_signature)
      (new_archive TensorflowBackend) = (Inr (), reserved_archive)"
  proof -
    have "add_endpoint ''_all_variables'' (PyFunction 0)
            (Some (TensorSpec [None, Some 3] ''float32'' # []))
            (new_archive TensorflowBackend) = (Inr (), reserved_archive)"
      by (subst add_endpoint_signature)
         (simp_all add: new_archive_def reserved_archive_def decorate_def serve_signature_def)
    then show ?thesis by (simp add: serve_signature_def)
  qed
  have r: "backend_of reserved_archive = TensorflowBackend"
    "endpoint_names reserved_archive = [''_all_variables'']"
    "endpoint_signatures reserved_archive = [''_all_variables'' \<mapsto> serve_signature]"
    "tracked reserved_archive = None"
    by (simp_all add: reserved_archive_def)
  have g: "get_concrete_fn reserved_archive ''_all_variables'' = Inr ?f"
    by (simp add: get_concrete_fn_def getattr_trackable_def reserved_archive_def)
  have l: "list_variables_used_by_fns trace_serve [?f] = Inr ([v1, v2], [v3])"
    by (simp add: list_variables_used_by_fns_def empty_collector_def trace_serve_def
          serve_trace_def v1_def v2_def v3_def)
  have f: "filter_and_track_resources trace_serve reserved_archive
             = (Inr (), setattr_trackable ''_misc_assets'' (PyList [])
                  (setattr_trackable ''_all_variables'' ?vs reserved_archive))"
    by (simp add: filter_and_track_resources_def r g l Let_def setattr_trackable_simps)
  have g1: "get_concrete_fn (setattr_trackable ''_misc_assets'' (PyList [])
                  (setattr_trackable ''_all_variables'' ?vs reserved_archive))
              ''_all_variables'' = Inr ?vs"
    by (simp add: get_concrete_fn_def getattr_trackable_def r setattr_trackable_simps)
  have w: "fst (write_out trace_serve reserved_archive)
             = Inr [''_all_variables'' \<mapsto> ?vs, ''serving_default'' \<mapsto> ?vs]"
    by (simp add: write_out_def r f g1 setattr_trackable_simps)
  from a g w show ?thesis by (simp add: v1_def v2_def v3_def)
qed

section \<open>Claims about \<^verbatim>\<open>TFSMLayer\<close>\<close>

text \<open>
  C7. Under TensorFlow, \<^verbatim>\<open>TFSMLayer.__init__\<close> resolves the call endpoint by the
  two-step rule: the name as a direct attribute of the loaded artifact first, the
  artifact's signature map second. When the name is neither, the constructor raises
  endpoint-not-found with the names of the signature map. A training endpoint that is
  given (and not the empty name) is resolved by the same rule once the call endpoint has
  resolved, with the same error; no training function is set otherwise. A layer that is
  constructed holds the functions the rule yields.
\<close>

theorem TFSMLayer_init_resolution:
  "(loaded endpoint = None \<and> signatures_of loaded = Inr sigs \<and> endpoint \<notin> fst ` set sigs \<longrightarrow>
      TFSMLayer_init Tensorflow gcf flag loaded path endpoint training
        = Inl (EndpointNotFound endpoint (map fst sigs)))
   \<and> (resolve_endpoint loaded endpoint = Inl e \<longrightarrow>
      TFSMLayer_init Tensorflow gcf flag loaded path endpoint training = Inl e)
   \<and> (resolve_endpoint loaded endpoint = Inr endpoint_fn \<and> training = Some (c # cs)
       \<and> loaded (c # cs) = None \<and> signatures_of loaded = Inr sigs
       \<and> (c # cs) \<notin> fst ` set sigs \<longrightarrow>
      TFSMLayer_init Tensorflow gcf flag loaded path endpoint training
        = Inl (EndpointNotFound (c # cs) (map fst sigs)))
   \<and> (resolve_endpoint loaded endpoint = Inr endpoint_fn \<and> truthy_name training
       \<and> resolve_endpoint loaded (the training) = Inl e \<longrightarrow>
      TFSMLayer_init Tensorflow gcf flag loaded path endpoint training = Inl e)
   \<and> (TFSMLayer_init Tensorflow gcf flag loaded path endpoint training = Inr layer \<longrightarrow>
      resolve_endpoint loaded endpoint = Inr (call_endpoint_fn layer)
      \<and> (loaded endpoint \<noteq> None \<longrightarrow> loaded endpoint = Some (call_endpoint_fn layer))
      \<and> (loaded endpoint = None \<longrightarrow>
           (\<exists>sigs f. signatures_of loaded = Inr sigs \<and> map_of sigs endpoint = Some f
                \<and> call_endpoint_fn layer = Callable f))
      \<and> (truthy_name training \<longrightarrow>
           (\<exists>f. call_training_endpoint_fn layer = Some f
               \<and> resolve_endpoint loaded (the training) = Inr f))
      \<and> (\<not> truthy_name training \<longrightarrow> call_training_endpoint_fn layer = None))"
proof (intro conjI impI)
  assume "loaded endpoint = None \<and> signatures_of loaded = Inr sigs \<and> endpoint \<notin> fst ` set sigs"
  then have "resolve_endpoint loaded endpoint = Inl (EndpointNotFound endpoint (map fst sigs))"
    by (simp add: resolve_endpoint_def)
  then show "TFSMLayer_init Tensorflow gcf flag loaded path endpoint training
        = Inl (EndpointNotFound endpoint (map fst sigs))"
    by (simp add: TFSMLayer_init_unfold)
next
  assume "resolve_endpoint loaded endpoint = Inl e"
  then show "TFSMLayer_init Tensorflow gcf flag loaded path endpoint training = Inl e"
    by (simp add: TFSMLayer_init_unfold)
next
  assume h: "resolve_endpoint loaded endpoint = Inr endpoint_fn \<and> training = Some (c # cs)
       \<and> loaded (c # cs) = None \<and> signatures_of loaded = Inr sigs
       \<and> (c # cs) \<notin> fst ` set sigs"
  then have "resolve_endpoint loaded (c # cs) = Inl (EndpointNotFound (c # cs) (map fst sigs))"
    by (simp add: resolve_endpoint_def)
  with h show "TFSMLayer_init Tensorflow gcf flag loaded path endpoint training
        = Inl (EndpointNotFound (c # cs) (map fst sigs))"
    by (simp add: TFSMLayer_init_unfold)
next
  assume "resolve_endpoint loaded endpoint = Inr endpoint_fn \<and> truthy_name training
       \<and> resolve_endpoint loaded (the training) = Inl e"
  then show "TFSMLayer_init Tensorflow gcf flag loaded path endpoint training = Inl e"
    by (simp add: TFSMLayer_init_unfold)
next
  assume a: "TFSMLayer_init Tensorflow gcf flag loaded path endpoint training = Inr layer"
  note f = TFSMLayer_init_fields[OF a]
  show r: "resolve_endpoint loaded endpoint = Inr (call_endpoint_fn layer)" by (rule f(1))
  show "loaded endpoint = Some (call_endpoint_fn layer)" if "loaded endpoint \<noteq> None"
    using r that by (auto simp: resolve_endpoint_def)
  show "\<exists>sigs f. signatures_of loaded = Inr sigs \<and> map_of sigs endpoint = Some f
                \<and> call_endpoint_fn layer = Callable f" if "loaded endpoint = None"
    using r that unfolding resolve_endpoint_code[symmetric]
    by (auto split: sum.splits option.splits)
  show "\<exists>f. call_training_endpoint_fn layer = Some f
               \<and> resolve_endpoint loaded (the training) = Inr f" if "truthy_name training"
    using f(2) that by simp
  show "call_training_endpoint_fn layer = None" if "\<not> truthy_name training"
    using f(3) that by simp
qed

text \<open>
  C8. For a constructed layer, every inputs value and every training flag,
  \<^verbatim>\<open>call\<close> invokes the training endpoint function exactly when the flag is true and a
  training endpoint was configured, and the call endpoint function in every other case,
  with the inputs and keyword arguments it was given.
\<close>

theorem call_dispatch:
  assumes "TFSMLayer_init b gcf flag loaded path endpoint training = Inr layer"
  shows "\<exists>call_fn. call_endpoint_fn layer = Callable call_fn
     \<and> call layer inputs False kwargs = Inr (call_fn, inputs, kwargs)
     \<and> (\<not> truthy_name (call_training_endpoint layer) \<longrightarrow>
          call layer inputs True kwargs = Inr (call_fn, inputs, kwargs))
     \<and> (truthy_name (call_training_endpoint layer) \<longrightarrow>
          (\<exists>training_fn. call_training_endpoint_fn layer = Some (Callable training_fn)
             \<and> call layer inputs True kwargs = Inr (training_fn, inputs, kwargs)))"
proof -
  note f = TFSMLayer_init_fields[OF assms]
  from f(5) obtain tvs ntvs where
    "list_variables_used_by_fns gcf (endpoint_fns layer) = Inr (tvs, ntvs)" by blast
  then obtain cs where cs: "traces_of gcf (endpoint_fns layer) = Inr cs"
    using traces_of_total by blast
  from traces_of_callable[OF cs, of "call_endpoint_fn layer"]
  obtain call_fn where c: "call_endpoint_fn layer = Callable call_fn"
    by (auto simp: endpoint_fns_def)
  have t: "\<exists>training_fn. call_training_endpoint_fn layer = Some (Callable training_fn)"
    if "truthy_name (call_training_endpoint layer)"
  proof -
    from that f(2,4) obtain g where g: "call_training_endpoint_fn layer = Some g" by auto
    with traces_of_callable[OF cs, of g] show ?thesis by (auto simp: endpoint_fns_def)
  qed
  show ?thesis
    using c t by (auto simp: call_def invoke_def)
qed

text \<open>
  C9. A constructed layer owns exactly the parameters referenced by the traces of its
  call endpoint function (and of its training endpoint function when one is configured),
  each identity once: its \<^verbatim>\<open>trainable_variables\<close> are the referenced parameters whose
  trainable flag is set, its \<^verbatim>\<open>non_trainable_variables\<close> are the others, and their
  lengths are the numbers of such parameters. So an artifact whose endpoint references
  two trainable parameters and one that is not gives a layer whose
  \<^verbatim>\<open>trainable_variables\<close> has length 2 and whose \<^verbatim>\<open>non_trainable_variables\<close> has
  length 1.
\<close>

theorem TFSMLayer_init_weights:
  assumes "TFSMLayer_init b gcf flag loaded path endpoint training = Inr layer"
  shows "\<exists>cs. traces_of gcf (endpoint_fns layer) = Inr cs
     \<and> set (reloaded_trainable_variables layer) = {v \<in> referenced cs. flag v}
     \<and> set (reloaded_non_trainable_variables layer) = {v \<in> referenced cs. \<not> flag v}
     \<and> set (reloaded_variables layer) = referenced cs
     \<and> distinct (reloaded_variables layer)
     \<and> length (reloaded_trainable_variables layer) = card {v \<in> referenced cs. flag v}
     \<and> length (reloaded_non_trainable_variables layer)
         = card {v \<in> referenced cs. \<not> flag v}
     \<and> layer_built layer"
proof -
  note f = TFSMLayer_init_fields[OF assms]
  from f(5) obtain tvs ntvs where
    l: "list_variables_used_by_fns gcf (endpoint_fns layer) = Inr (tvs, ntvs)"
    and inv: "weights_inv flag layer"
    and un: "set (trainable_weights layer) \<union> set (non_trainable_weights layer)
               = set tvs \<union> set ntvs"
    by blast
  from l obtain cs where cs: "traces_of gcf (endpoint_fns layer) = Inr cs"
    using traces_of_total by blast
  from over_fns_empty_collector[OF cs] l
  have "set tvs \<union> set ntvs = referenced cs"
    using collected_set[of cs] by (auto simp: set_first_occurrences simp del: set_concat)
  with un have r: "set (trainable_weights layer) \<union> set (non_trainable_weights layer)
                     = referenced cs"
    by simp
  have t: "set (trainable_weights layer) = {v \<in> referenced cs. flag v}"
    using r inv unfolding weights_inv_def by blast
  have n: "set (non_trainable_weights layer) = {v \<in> referenced cs. \<not> flag v}"
    using r inv unfolding weights_inv_def by blast
  have d: "distinct (trainable_weights layer @ non_trainable_weights layer)"
    using inv by (simp add: weights_inv_def)
  then have "distinct (trainable_weights layer)" "distinct (non_trainable_weights layer)"
    by simp_all
  then have c: "length (trainable_weights layer) = card {v \<in> referenced cs. flag v}"
    "length (non_trainable_weights layer) = card {v \<in> referenced cs. \<not> flag v}"
    using t n distinct_card by metis+
  from TFSMLayer_init_success[OF assms] have b: "layer_built layer" by auto
  have u: "set (trainable_weights layer @ non_trainable_weights layer) = referenced cs"
    using r by simp
  from cs t n d c b u show ?thesis
    unfolding reloaded_trainable_variables_def reloaded_non_trainable_variables_def
      reloaded_variables_def
    by blast
qed

theorem TFSMLayer_init_resolution_witness:
  "TFSMLayer_init Tensorflow trace_serve trainable_flag serve_artifact ''artifact''
      ''predict'' None
     = Inl (EndpointNotFound ''predict'' [''serve'', ''serving_default''])
   \<and> TFSMLayer_init Tensorflow trace_serve trainable_flag serve_artifact ''artifact''
      ''serve'' (Some ''train'')
     = Inl (EndpointNotFound ''train'' [''serve'', ''serving_default''])
   \<and> TFSMLayer_init Tensorflow trace_serve trainable_flag serve_artifact ''artifact''
      ''serve'' (Some ''serving_default'') = Inr train_layer
   \<and> serve_artifact ''serve'' = Some (call_endpoint_fn train_layer)
   \<and> call_training_endpoint_fn train_layer = Some (Callable (ConcreteFunction serve_trace))"
proof -
  let ?sigs = "[(''serve'', ConcreteFunction serve_trace),
                (''serving_default'', ConcreteFunction serve_trace)]"
  have s: "signatures_of serve_artifact = Inr ?sigs"
    by (simp add: signatures_of_def serve_artifact_def)
  have n: "serve_artifact ''predict'' = None" "serve_artifact ''train'' = None"
    "serve_artifact ''serve'' \<noteq> None"
    by (simp_all add: serve_artifact_def)
  have a: "TFSMLayer_init Tensorflow trace_serve trainable_flag serve_artifact ''artifact''
      ''predict'' None
     = Inl (EndpointNotFound ''predict'' [''serve'', ''serving_default''])"
    using TFSMLayer_init_resolution[where loaded=serve_artifact and endpoint="''predict''"
            and sigs="?sigs" and gcf=trace_serve and flag=trainable_flag
            and path="''artifact''" and training=None] s n
    by simp
  have b: "TFSMLayer_init Tensorflow trace_serve trainable_flag serve_artifact ''artifact''
      ''serve'' (Some ''train'')
     = Inl (EndpointNotFound ''train'' [''serve'', ''serving_default''])"
    using TFSMLayer_init_resolution[where loaded=serve_artifact and endpoint="''serve''"
            and sigs="?sigs" and gcf=trace_serve and flag=trainable_flag
            and path="''artifact''" and training="Some ''train''"
            and endpoint_fn="Callable (RestoredFunction [serve_trace])"
            and c="CHR ''t''" and cs="''rain''"] s n serve_artifact_resolve(1)
    by simp
  have c: "serve_artifact ''serve'' = Some (call_endpoint_fn train_layer)"
    using TFSMLayer_init_resolution[where loaded=serve_artifact and endpoint="''serve''"
            and gcf=trace_serve and flag=trainable_flag
            and path="''artifact''" and training="Some ''serving_default''"
            and layer=train_layer] init_train_layer n(3)
    by simp
  have d: "call_training_endpoint_fn train_layer = Some (Callable (ConcreteFunction serve_trace))"
    by (simp add: train_layer_def)
  from a b c d init_train_layer show ?thesis by (simp only:)
qed

theorem call_dispatch_witness:
  "call train_layer (7::nat) True () = Inr (ConcreteFunction serve_trace, 7, ())
   \<and> call train_layer (7::nat) False () = Inr (RestoredFunction [serve_trace], 7, ())
   \<and> call serve_layer (7::nat) True () = Inr (RestoredFunction [serve_trace], 7, ())
   \<and> call serve_layer (7::nat) False () = Inr (RestoredFunction [serve_trace], 7, ())"
proof -
  have t: "truthy_name (call_training_endpoint train_layer)"
    "call_training_endpoint_fn train_layer = Some (Callable (ConcreteFunction serve_trace))"
    "call_endpoint_fn train_layer = Callable (RestoredFunction [serve_trace])"
    by (simp_all add: train_layer_def)
  have s: "\<not> truthy_name (call_training_endpoint serve_layer)"
    "call_endpoint_fn serve_layer = Callable (RestoredFunction [serve_trace])"
    by (simp_all add: serve_layer_def)
  from call_dispatch[OF init_train_layer, of "7::nat" "()"] t
  have a: "call train_layer (7::nat) True () = Inr (ConcreteFunction serve_trace, 7, ())
   \<and> call train_layer (7::nat) False () = Inr (RestoredFunction [serve_trace], 7, ())"
    by auto
  from call_dispatch[OF init_serve_layer, of "7::nat" "()"] s
  have b: "call serve_layer (7::nat) True () = Inr (RestoredFunction [serve_trace], 7, ())
   \<and> call serve_layer (7::nat) False () = Inr (RestoredFunction [serve_trace], 7, ())"
    by auto
  from a b show ?thesis by (simp only:)
qed

theorem TFSMLayer_init_weights_witness:
  "TFSMLayer_init Tensorflow trace_serve trainable_flag serve_artifact ''artifact'' ''serve'' None
     = Inr serve_layer
   \<and> traces_of trace_serve (endpoint_fns serve_layer) = Inr [serve_trace]
   \<and> referenced [serve_trace] = {v1, v2, v3}
   \<and> trainable_flag v1 \<and> trainable_flag v2 \<and> \<not> trainable_flag v3
   \<and> length (reloaded_trainable_variables serve_layer) = 2
   \<and> length (reloaded_non_trainable_variables serve_layer) = 1
   \<and> distinct (reloaded_variables serve_layer)"
proof -
  have tr: "traces_of trace_serve (endpoint_fns serve_layer) = Inr [serve_trace]"
    by (simp add: endpoint_fns_def serve_layer_def)
  have rf: "referenced [serve_trace] = {v1, v2, v3}"
    by (auto simp: referenced_def serve_trace_def)
  have fl: "trainable_flag v1" "trainable_flag v2" "\<not> trainable_flag v3"
    by (simp_all add: trainable_flag_def v1_def v2_def v3_def)
  have ne: "v1 \<noteq> v2" "v1 \<noteq> v3" "v2 \<noteq> v3"
    by (simp_all add: v1_def v2_def v3_def)
  have st: "{v \<in> {v1, v2, v3}. trainable_flag v} = {v1, v2}"
    "{v \<in> {v1, v2, v3}. \<not> trainable_flag v} = {v3}"
    using fl by auto
  from TFSMLayer_init_weights[OF init_serve_layer] tr
  have "length (reloaded_trainable_variables serve_layer)
         = card {v \<in> referenced [serve_trace]. trainable_flag v}
     \<and> length (reloaded_non_trainable_variables serve_layer)
         = card {v \<in> referenced [serve_trace]. \<not> trainable_flag v}
     \<and> distinct (reloaded_variables serve_layer)"
    by auto
  then have "length (reloaded_trainable_variables serve_layer) = 2
     \<and> length (reloaded_non_trainable_variables serve_layer) = 1
     \<and> distinct (reloaded_variables serve_layer)"
    unfolding rf st using ne by simp
  with init_serve_layer tr rf fl show ?thesis by (simp only: simp_thms)
qed

end
